theory Spec2Isabelle
  imports Complex_Main "HOL-Library.Sublist"
begin

section \<open>Python values\<close>

text \<open>
  A Python \<open>str\<close> is a sequence of Unicode code points, so \<open>len\<close> counts code points and
  not bytes. Code points are natural numbers here; \<open>asc\<close> embeds an ASCII literal. A \<open>str\<close>
  may hold lone surrogates (\<open>U+D800..U+DFFF\<close>): \<open>json.loads\<close> produces one from an escaped
  surrogate in a JSON string, and \<open>os.getenv\<close> from a byte that is not UTF-8.
\<close>

type_synonym pystr = "nat list"

definition asc :: "string \<Rightarrow> pystr" where
  "asc s = map of_char s"

text \<open>
  The values that travel through JSON bodies. A Python \<open>float\<close> is an IEEE double; the model
  computes with exact reals, so a float is finite (there is no NaN and no infinity).
  Subtraction and \<open>round\<close> of doubles are monotone as their exact counterparts are, and
  every concrete clock reading used below is a dyadic rational on which the double
  operations of the source are exact.
\<close>

datatype pyval =
    PNone
  | PBool bool
  | PInt int
  | PFloat real
  | PStr pystr
  | PList "pyval list"
  | PDict "(pystr \<times> pyval) list"

text \<open>A \<open>dict\<close> keeps insertion order and has distinct keys; lookup is by key.\<close>

definition dict_get :: "(pystr \<times> pyval) list \<Rightarrow> pystr \<Rightarrow> pyval option" where
  "dict_get kvs k = map_of kvs k"

text \<open>
  What the interpreter and the framework supply and the repository does not contain: the
  Unicode upper-case table beyond ASCII (\<open>_PyUnicode_ToUpperFull\<close>), the shortest
  round-trip \<open>repr\<close> of a float and \<open>sys.version\<close> (both ASCII text), and the field-error
  payload that the framework puts into a 422 response.
\<close>

record runtime =
  to_upper_full :: "nat \<Rightarrow> pystr"
  float_repr :: "real \<Rightarrow> string"
  sys_version :: string
  validation_errors :: "pyval \<Rightarrow> pyval"

text \<open>\<open>str(n)\<close> for a natural number: its decimal digits; \<open>48\<close> is \<open>0\<close>.\<close>

fun dec :: "nat \<Rightarrow> pystr" where
  "dec n = (if n < 10 then [48 + n] else dec (n div 10) @ [48 + n mod 10])"

declare dec.simps [simp del]

subsection \<open>\<open>str.upper\<close>, \<open>str.strip\<close>\<close>

text \<open>
  \<open>str.isspace\<close> for one code point, as \<open>str.strip()\<close> uses it: the ASCII white space
  \<open>0x09..0x0D\<close>, \<open>0x1C..0x20\<close> and the Unicode characters of bidirectional type WS, B, S or
  of category Zs.
\<close>

definition isspace :: "nat \<Rightarrow> bool" where
  "isspace c \<longleftrightarrow>
     (9 \<le> c \<and> c \<le> 13) \<or> (28 \<le> c \<and> c \<le> 32) \<or> c = 133 \<or> c = 160 \<or> c = 5760 \<or>
     (8192 \<le> c \<and> c \<le> 8202) \<or> c = 8232 \<or> c = 8233 \<or> c = 8239 \<or> c = 8287 \<or> c = 12288"

definition ascii_toupper :: "nat \<Rightarrow> nat" where
  "ascii_toupper c = (if 97 \<le> c \<and> c \<le> 122 then c - 32 else c)"

definition upper_cp :: "runtime \<Rightarrow> nat \<Rightarrow> pystr" where
  "upper_cp rt c = (if c < 128 then [ascii_toupper c] else to_upper_full rt c)"

text \<open>\<open>s.upper()\<close>: every code point is replaced by its full upper-case mapping.\<close>

definition upper :: "runtime \<Rightarrow> pystr \<Rightarrow> pystr" where
  "upper rt s = concat (map (upper_cp rt) s)"

definition lstrip :: "pystr \<Rightarrow> pystr" where
  "lstrip s = dropWhile isspace s"

definition rstrip :: "pystr \<Rightarrow> pystr" where
  "rstrip s = rev (dropWhile isspace (rev s))"

text \<open>\<open>s.strip()\<close>: the left index runs first, then the right one down to it.\<close>

definition strip :: "pystr \<Rightarrow> pystr" where
  "strip s = rstrip (lstrip s)"

definition len :: "pystr \<Rightarrow> int" where
  "len s = int (length s)"

subsection \<open>\<open>str.encode("utf-8")\<close> and \<open>bytes.decode("utf-8")\<close>\<close>

text \<open>
  A code point can be encoded when it is a Unicode scalar value: below \<open>0x110000\<close> and not
  a surrogate.
\<close>

definition is_surrogate :: "nat \<Rightarrow> bool" where
  "is_surrogate c \<longleftrightarrow> 55296 \<le> c \<and> c \<le> 57343"

definition scalar :: "nat \<Rightarrow> bool" where
  "scalar c \<longleftrightarrow> c < 1114112 \<and> \<not> is_surrogate c"

definition encodable :: "pystr \<Rightarrow> bool" where
  "encodable s = list_all scalar s"

definition utf8_cp :: "nat \<Rightarrow> nat list" where
  "utf8_cp c =
     (if c < 128 then [c]
      else if c < 2048 then [192 + c div 64, 128 + c mod 64]
      else if c < 65536 then [224 + c div 4096, 128 + c div 64 mod 64, 128 + c mod 64]
      else [240 + c div 262144, 128 + c div 4096 mod 64, 128 + c div 64 mod 64, 128 + c mod 64])"

definition utf8 :: "pystr \<Rightarrow> nat list" where
  "utf8 s = concat (map utf8_cp s)"

text \<open>
  An exception caught by \<open>except Exception as e\<close>: some exception with its \<open>str(e)\<close>, or the
  \<open>UnicodeEncodeError\<close> of the encoder with the offending code point and its position.
\<close>

datatype py_exception = Exception pystr | UnicodeEncodeError nat nat

definition hex_digit :: "nat \<Rightarrow> nat" where
  "hex_digit d = (if d < 10 then 48 + d else 87 + d)"

fun exc_str :: "py_exception \<Rightarrow> pystr" where
  "exc_str (Exception m) = m"
| "exc_str (UnicodeEncodeError c i) =
     [39] @ asc ''utf-8'' @ [39] @ asc '' codec can'' @ [39] @ asc ''t encode character ''
     @ [39, 92, 117, hex_digit (c div 4096 mod 16), hex_digit (c div 256 mod 16),
        hex_digit (c div 16 mod 16), hex_digit (c mod 16), 39]
     @ asc '' in position '' @ dec i @ asc '': surrogates not allowed''"

text \<open>The encoder goes through the string and raises at the first code point it cannot encode.\<close>

fun encode_from :: "nat \<Rightarrow> pystr \<Rightarrow> py_exception + nat list" where
  "encode_from i [] = Inr []"
| "encode_from i (c # cs) =
     (if scalar c
      then (case encode_from (Suc i) cs of Inl e \<Rightarrow> Inl e | Inr bs \<Rightarrow> Inr (utf8_cp c @ bs))
      else Inl (UnicodeEncodeError c i))"

definition encode_utf8 :: "pystr \<Rightarrow> py_exception + nat list" where
  "encode_utf8 s = encode_from 0 s"

text \<open>
  The strict decoder: continuation bytes are \<open>0x80..0xBF\<close>, and an overlong form, a
  surrogate or a value from \<open>0x110000\<close> on is refused.
\<close>

definition continuation :: "nat \<Rightarrow> bool" where
  "continuation b \<longleftrightarrow> 128 \<le> b \<and> b < 192"

fun decode_utf8 :: "nat list \<Rightarrow> pystr option" where
  "decode_utf8 [] = Some []"
| "decode_utf8 (b # bs) =
     (if b < 128 then map_option ((#) b) (decode_utf8 bs)
      else if 194 \<le> b \<and> b < 224 then
        (case bs of
           b1 # r \<Rightarrow>
             if continuation b1
             then map_option ((#) ((b - 192) * 64 + (b1 - 128))) (decode_utf8 r)
             else None
         | _ \<Rightarrow> None)
      else if 224 \<le> b \<and> b < 240 then
        (case bs of
           b1 # b2 # r \<Rightarrow>
             (let c = (b - 224) * 4096 + (b1 - 128) * 64 + (b2 - 128)
              in if continuation b1 \<and> continuation b2 \<and> 2048 \<le> c \<and> \<not> is_surrogate c
                 then map_option ((#) c) (decode_utf8 r)
                 else None)
         | _ \<Rightarrow> None)
      else if 240 \<le> b \<and> b < 245 then
        (case bs of
           b1 # b2 # b3 # r \<Rightarrow>
             (let c = (b - 240) * 262144 + (b1 - 128) * 4096 + (b2 - 128) * 64 + (b3 - 128)
              in if continuation b1 \<and> continuation b2 \<and> continuation b3
                    \<and> 65536 \<le> c \<and> c < 1114112
                 then map_option ((#) c) (decode_utf8 r)
                 else None)
         | _ \<Rightarrow> None)
      else None)"

declare decode_utf8.simps(2) [simp del]

text \<open>
  Two properties of the Unicode case table of the runtime. Beyond ASCII, a white-space
  character is its own upper case, and the upper case of any other character is not empty
  and neither starts nor ends with white space; and the upper case of a scalar value
  consists of scalar values.
\<close>

definition case_table_keeps_space :: "runtime \<Rightarrow> bool" where
  "case_table_keeps_space rt \<longleftrightarrow>
     (\<forall>c. 128 \<le> c \<longrightarrow>
        (if isspace c then to_upper_full rt c = [c]
         else to_upper_full rt c \<noteq> [] \<and> \<not> isspace (hd (to_upper_full rt c))
              \<and> \<not> isspace (last (to_upper_full rt c))))"

definition case_table_scalar :: "runtime \<Rightarrow> bool" where
  "case_table_scalar rt \<longleftrightarrow> (\<forall>c. 128 \<le> c \<longrightarrow> scalar c \<longrightarrow> encodable (to_upper_full rt c))"

subsection \<open>\<open>round\<close>\<close>

definition round_half_even :: "real \<Rightarrow> int" where
  "round_half_even x =
     (let f = \<lfloor>x\<rfloor>; d = x - of_int f
      in if d < 1 / 2 then f else if 1 / 2 < d then f + 1 else if even f then f else f + 1)"

text \<open>
  \<open>round(x, ndigits)\<close>: the multiple of \<open>10 ** -ndigits\<close> nearest to the exact value of \<open>x\<close>,
  a tie going to the even multiple.
\<close>

definition py_round :: "real \<Rightarrow> nat \<Rightarrow> real" where
  "py_round x ndigits = of_int (round_half_even (x * 10 ^ ndigits)) / 10 ^ ndigits"

subsection \<open>\<open>datetime\<close>\<close>

record datetime =
  year :: nat
  month :: nat
  day :: nat
  hour :: nat
  minute :: nat
  second :: nat
  microsecond :: nat

text \<open>The ranges the \<open>datetime\<close> constructor enforces.\<close>

definition valid_datetime :: "datetime \<Rightarrow> bool" where
  "valid_datetime d \<longleftrightarrow>
     1 \<le> year d \<and> year d \<le> 9999 \<and> 1 \<le> month d \<and> month d \<le> 12 \<and>
     1 \<le> day d \<and> day d \<le> 31 \<and> hour d < 24 \<and> minute d < 60 \<and> second d < 60 \<and>
     microsecond d < 1000000"

text \<open>\<open>"%0wd" % n\<close>: the decimal digits of \<open>n\<close>, padded with zeros on the left to width \<open>w\<close>.\<close>

definition zero_pad :: "nat \<Rightarrow> nat \<Rightarrow> pystr" where
  "zero_pad w n = replicate (w - length (dec n)) 48 @ dec n"

text \<open>
  \<open>datetime.isoformat()\<close> of a naive datetime (\<open>utcnow()\<close> carries no \<open>tzinfo\<close>, so no offset
  is appended): the fraction is written only when the microsecond is not zero.
\<close>

definition isoformat :: "datetime \<Rightarrow> pystr" where
  "isoformat d =
     zero_pad 4 (year d) @ asc ''-'' @ zero_pad 2 (month d) @ asc ''-'' @ zero_pad 2 (day d)
     @ asc ''T'' @ zero_pad 2 (hour d) @ asc '':'' @ zero_pad 2 (minute d) @ asc '':''
     @ zero_pad 2 (second d)
     @ (if microsecond d \<noteq> 0 then asc ''.'' @ zero_pad 6 (microsecond d) else [])"

text \<open>
  A shape is a template in which \<open>d\<close> stands for one decimal digit and every other
  character for itself.
\<close>

definition is_digit :: "nat \<Rightarrow> bool" where
  "is_digit c \<longleftrightarrow> 48 \<le> c \<and> c \<le> 57"

definition has_shape :: "string \<Rightarrow> pystr \<Rightarrow> bool" where
  "has_shape t s = list_all2 (\<lambda>p c. if p = CHR ''d'' then is_digit c else c = of_char p) t s"

definition shape_micro :: string where
  "shape_micro = ''dddd-dd-ddTdd:dd:dd.dddddd''"

definition shape_seconds :: string where
  "shape_seconds = ''dddd-dd-ddTdd:dd:dd''"

text \<open>The two clock reads of a request: \<open>time.time()\<close> and \<open>datetime.utcnow()\<close>.\<close>

record clock =
  time_time :: real
  utcnow :: datetime

subsection \<open>\<open>json.dumps\<close> and \<open>json.loads\<close>\<close>

text \<open>
  \<open>json.dumps(content, ensure_ascii=False, separators=(",", ":"))\<close>, as the JSON response
  calls it. A string is written between double quotes (\<open>34\<close>) with the backslash (\<open>92\<close>),
  the double quote and the control characters below \<open>0x20\<close> escaped; every other code point
  is written as it is.
\<close>

definition json_escape :: "nat \<Rightarrow> pystr" where
  "json_escape c =
     (if c = 92 then [92, 92]
      else if c = 34 then [92, 34]
      else if c = 8 then [92, 98]
      else if c = 12 then [92, 102]
      else if c = 10 then [92, 110]
      else if c = 13 then [92, 114]
      else if c = 9 then [92, 116]
      else if c < 32 then [92, 117, 48, 48, hex_digit (c div 16), hex_digit (c mod 16)]
      else [c])"

definition json_dumps_str :: "pystr \<Rightarrow> pystr" where
  "json_dumps_str s = [34] @ concat (map json_escape s) @ [34]"

fun join :: "pystr \<Rightarrow> pystr list \<Rightarrow> pystr" where
  "join sep [] = []"
| "join sep [x] = x"
| "join sep (x # y # ys) = x @ sep @ join sep (y # ys)"

fun json_dumps :: "runtime \<Rightarrow> pyval \<Rightarrow> pystr" where
  "json_dumps rt PNone = asc ''null''"
| "json_dumps rt (PBool b) = (if b then asc ''true'' else asc ''false'')"
| "json_dumps rt (PInt i) = (if i < 0 then asc ''-'' @ dec (nat (- i)) else dec (nat i))"
| "json_dumps rt (PFloat x) = asc (float_repr rt x)"
| "json_dumps rt (PStr s) = json_dumps_str s"
| "json_dumps rt (PList vs) = asc ''['' @ join (asc '','') (map (json_dumps rt) vs) @ asc '']''"
| "json_dumps rt (PDict kvs) =
     asc ''{''
     @ join (asc '','') (map (\<lambda>kv. json_dumps_str (fst kv) @ asc '':'' @ json_dumps rt (snd kv)) kvs)
     @ asc ''}''"

text \<open>All the strings of a value, keys included, can be encoded.\<close>

fun text_ok :: "pyval \<Rightarrow> bool" where
  "text_ok (PStr s) = encodable s"
| "text_ok (PList vs) = list_all text_ok vs"
| "text_ok (PDict kvs) = list_all (\<lambda>kv. encodable (fst kv) \<and> text_ok (snd kv)) kvs"
| "text_ok v = True"

text \<open>
  \<open>json.loads\<close> on a document that is one string, as a client reads the body of
  \<open>/metrics\<close>: after the opening quote, a quote ends the string and nothing may follow; a
  backslash starts an escape; a raw control character is an error. An escaped high
  surrogate followed by an escaped low surrogate gives one code point.
\<close>

definition hex_val :: "nat \<Rightarrow> nat option" where
  "hex_val c =
     (if 48 \<le> c \<and> c \<le> 57 then Some (c - 48)
      else if 97 \<le> c \<and> c \<le> 102 then Some (c - 87)
      else if 65 \<le> c \<and> c \<le> 70 then Some (c - 55)
      else None)"

definition hex4 :: "nat \<Rightarrow> nat \<Rightarrow> nat \<Rightarrow> nat \<Rightarrow> nat option" where
  "hex4 a b c d =
     (case (hex_val a, hex_val b, hex_val c, hex_val d) of
        (Some w, Some x, Some y, Some z) \<Rightarrow> Some (w * 4096 + x * 256 + y * 16 + z)
      | _ \<Rightarrow> None)"

definition unescape :: "nat \<Rightarrow> nat option" where
  "unescape e =
     (if e = 34 then Some 34
      else if e = 92 then Some 92
      else if e = 47 then Some 47
      else if e = 98 then Some 8
      else if e = 102 then Some 12
      else if e = 110 then Some 10
      else if e = 114 then Some 13
      else if e = 116 then Some 9
      else None)"

text \<open>The escaped low surrogate at the head of \<open>r\<close>, if there is one; it takes six characters.\<close>

definition low_surrogate :: "pystr \<Rightarrow> nat option" where
  "low_surrogate r =
     (case r of
        bs # u # a # b # c # d # r' \<Rightarrow>
          (if bs = 92 \<and> u = 117
           then (case hex4 a b c d of
                   Some l \<Rightarrow> if 56320 \<le> l \<and> l \<le> 57343 then Some l else None
                 | None \<Rightarrow> None)
           else None)
      | _ \<Rightarrow> None)"

function scanstring :: "pystr \<Rightarrow> pystr option" where
  "scanstring [] = None"
| "scanstring (c # cs) =
     (if c = 34 then (if cs = [] then Some [] else None)
      else if c = 92 then
        (case cs of
           [] \<Rightarrow> None
         | e # r \<Rightarrow>
             if e = 117 then
               (case r of
                  a # b # c' # d # r' \<Rightarrow>
                    (case hex4 a b c' d of
                       None \<Rightarrow> None
                     | Some h \<Rightarrow>
                         (case (if 55296 \<le> h \<and> h \<le> 56319 then low_surrogate r' else None) of
                            Some l \<Rightarrow>
                              map_option ((#) (65536 + (h - 55296) * 1024 + (l - 56320)))
                                (scanstring (drop 6 r'))
                          | None \<Rightarrow> map_option ((#) h) (scanstring r')))
                | _ \<Rightarrow> None)
             else
               (case unescape e of
                  None \<Rightarrow> None
                | Some x \<Rightarrow> map_option ((#) x) (scanstring r)))
      else if c < 32 then None
      else map_option ((#) c) (scanstring cs))"
  by pat_completeness auto
termination
  by (relation "measure length") auto

declare scanstring.simps(2) [simp del]

definition json_loads_str :: "pystr \<Rightarrow> pystr option" where
  "json_loads_str s = (case s of [] \<Rightarrow> None | q # cs \<Rightarrow> if q = 34 then scanstring cs else None)"

text \<open>\<open>response.json()\<close> of a client, for a body that is one JSON string.\<close>

definition response_json :: "nat list \<Rightarrow> pystr option" where
  "response_json b = (case decode_utf8 b of None \<Rightarrow> None | Some s \<Rightarrow> json_loads_str s)"

section \<open>The service\<close>

subsection \<open>Application metadata\<close>

text \<open>The three module-level globals, assigned when the module is loaded.\<close>

record app_config =
  APP_START_TIME :: real
  APP_VERSION :: pystr
  ENVIRONMENT :: pystr

text \<open>\<open>os.getenv(key, default)\<close>: the default is used only when the variable is not set.\<close>

definition getenv :: "(pystr \<rightharpoonup> pystr) \<Rightarrow> pystr \<Rightarrow> pystr \<Rightarrow> pystr" where
  "getenv env key dflt = (case env key of None \<Rightarrow> dflt | Some v \<Rightarrow> v)"

definition load_module :: "(pystr \<rightharpoonup> pystr) \<Rightarrow> real \<Rightarrow> app_config" where
  "load_module env now =
     \<lparr>APP_START_TIME = now,
      APP_VERSION = getenv env (asc ''APP_VERSION'') (asc ''1.0.0''),
      ENVIRONMENT = getenv env (asc ''ENVIRONMENT'') (asc ''development'')\<rparr>"

definition app_title :: pystr where
  "app_title = asc ''DevOps Pipeline Demo API''"

subsection \<open>Models, responses, exceptions, log\<close>

record HealthResponse =
  status :: pystr
  timestamp :: pystr
  uptime_seconds :: real
  version :: pystr
  environment :: pystr

record MessageRequest =
  message :: pystr

record MessageResponse =
  original :: pystr
  processed :: pystr
  length_field :: int
  timestamp :: pystr

text \<open>
  A response as it is sent: the status, the media type and the bytes of the body. The
  content the body was rendered from is kept beside it, to read its fields.
\<close>

record Response =
  status_code :: nat
  content :: pyval
  media_type :: pystr
  raw_body :: "nat list"

record HTTPException =
  status_code :: nat
  detail :: pystr

text \<open>
  \<open>JSONResponse(content, status_code, media_type)\<close> renders the body when it is
  constructed: \<open>json.dumps(content, ...).encode("utf-8")\<close>. The encoder raises on a code
  point that is not a scalar value, and then there is no response.
\<close>

definition render :: "runtime \<Rightarrow> pyval \<Rightarrow> py_exception + nat list" where
  "render rt c = encode_utf8 (json_dumps rt c)"

definition JSONResponse :: "runtime \<Rightarrow> pyval \<Rightarrow> nat \<Rightarrow> pystr \<Rightarrow> py_exception + Response" where
  "JSONResponse rt c sc mt =
     (case render rt c of
        Inl e \<Rightarrow> Inl e
      | Inr b \<Rightarrow> Inr \<lparr>Response.status_code = sc, content = c, media_type = mt, raw_body = b\<rparr>)"

datatype level = INFO | ERROR

type_synonym log_record = "level \<times> pystr"

text \<open>
  \<open>try: body except Exception as e: handler\<close>, where the handler logs and raises an
  \<open>HTTPException\<close>. The body yields the records it logged and either the exception it
  raised or the value it returned.
\<close>

definition try_except ::
  "log_record list \<times> (py_exception + 'a) \<Rightarrow> (py_exception \<Rightarrow> log_record list \<times> HTTPException)
     \<Rightarrow> log_record list \<times> (HTTPException + 'a)" where
  "try_except body handler =
     (case body of
        (lg, Inr r) \<Rightarrow> (lg, Inr r)
      | (lg, Inl e) \<Rightarrow> (lg @ fst (handler e), Inl (snd (handler e))))"

subsection \<open>Route handlers\<close>

definition startup_event :: "app_config \<Rightarrow> log_record list" where
  "startup_event cfg =
     [(INFO, [128640] @ asc '' Starting '' @ app_title @ asc '' v'' @ APP_VERSION cfg),
      (INFO, [128205] @ asc '' Environment: '' @ ENVIRONMENT cfg),
      (INFO, [9989] @ asc '' Application started successfully'')]"

definition shutdown_event :: "log_record list" where
  "shutdown_event = [(INFO, [128721] @ asc '' Shutting down application'')]"

definition root :: "app_config \<Rightarrow> (pystr \<times> pyval) list" where
  "root cfg =
     [(asc ''message'', PStr (asc ''Welcome to DevOps Pipeline Demo API'')),
      (asc ''version'', PStr (APP_VERSION cfg)),
      (asc ''docs'', PStr (asc ''/docs'')),
      (asc ''health'', PStr (asc ''/health''))]"

definition health_check :: "app_config \<Rightarrow> clock \<Rightarrow> HealthResponse" where
  "health_check cfg clk =
     (let uptime = time_time clk - APP_START_TIME cfg
      in \<lparr>status = asc ''healthy'',
          HealthResponse.timestamp = isoformat (utcnow clk),
          uptime_seconds = py_round uptime 2,
          version = APP_VERSION cfg,
          environment = ENVIRONMENT cfg\<rparr>)"

definition readiness_check_try ::
  "runtime \<Rightarrow> clock \<Rightarrow> log_record list \<times> (py_exception + Response)" where
  "readiness_check_try rt clk =
     ([], JSONResponse rt
            (PDict [(asc ''ready'', PBool True),
                    (asc ''timestamp'', PStr (isoformat (utcnow clk)))])
            200 (asc ''application/json''))"

definition readiness_check_except :: "py_exception \<Rightarrow> log_record list \<times> HTTPException" where
  "readiness_check_except e =
     ([(ERROR, asc ''Readiness check failed: '' @ exc_str e)],
      \<lparr>HTTPException.status_code = 503, detail = asc ''Service not ready''\<rparr>)"

definition readiness_check ::
  "runtime \<Rightarrow> clock \<Rightarrow> log_record list \<times> (HTTPException + Response)" where
  "readiness_check rt clk = try_except (readiness_check_try rt clk) readiness_check_except"

text \<open>The label line of the exposition text; \<open>34\<close> is the double quote.\<close>

definition app_info_line :: "pystr \<Rightarrow> pystr \<Rightarrow> pystr" where
  "app_info_line v e =
     asc ''app_info{version='' @ [34] @ v @ [34] @ asc '',environment='' @ [34] @ e @ [34]
     @ asc ''} 1''"

definition metrics_output :: "runtime \<Rightarrow> app_config \<Rightarrow> real \<Rightarrow> pystr" where
  "metrics_output rt cfg uptime =
     asc ''# HELP app_uptime_seconds Application uptime in seconds'' @ [10]
     @ asc ''# TYPE app_uptime_seconds gauge'' @ [10]
     @ asc ''app_uptime_seconds '' @ asc (float_repr rt uptime) @ [10]
     @ [10]
     @ asc ''# HELP app_info Application information'' @ [10]
     @ asc ''# TYPE app_info gauge'' @ [10]
     @ app_info_line (APP_VERSION cfg) (ENVIRONMENT cfg) @ [10]"

text \<open>The handler has no \<open>try\<close>: an exception of \<open>JSONResponse\<close> leaves it.\<close>

definition metrics :: "runtime \<Rightarrow> app_config \<Rightarrow> clock \<Rightarrow> py_exception + Response" where
  "metrics rt cfg clk =
     (let uptime = time_time clk - APP_START_TIME cfg
      in JSONResponse rt (PStr (metrics_output rt cfg uptime)) 200 (asc ''text/plain''))"

definition process_message_try ::
  "runtime \<Rightarrow> MessageRequest \<Rightarrow> clock \<Rightarrow> log_record list \<times> (py_exception + MessageResponse)" where
  "process_message_try rt request clk =
     (let original_message = message request;
          processed_message = strip (upper rt original_message)
      in ([(INFO, asc ''Processed message: '' @ original_message @ asc '' -> ''
                  @ processed_message)],
          Inr \<lparr>original = original_message,
               processed = processed_message,
               length_field = len processed_message,
               MessageResponse.timestamp = isoformat (utcnow clk)\<rparr>))"

definition process_message_except :: "py_exception \<Rightarrow> log_record list \<times> HTTPException" where
  "process_message_except e =
     ([(ERROR, asc ''Error processing message: '' @ exc_str e)],
      \<lparr>HTTPException.status_code = 500, detail = asc ''Internal server error''\<rparr>)"

definition process_message ::
  "runtime \<Rightarrow> MessageRequest \<Rightarrow> clock \<Rightarrow> log_record list \<times> (HTTPException + MessageResponse)" where
  "process_message rt request clk =
     try_except (process_message_try rt request clk) process_message_except"

definition app_info :: "runtime \<Rightarrow> app_config \<Rightarrow> clock \<Rightarrow> (pystr \<times> pyval) list" where
  "app_info rt cfg clk =
     [(asc ''application'', PStr app_title),
      (asc ''version'', PStr (APP_VERSION cfg)),
      (asc ''environment'', PStr (ENVIRONMENT cfg)),
      (asc ''uptime_seconds'', PFloat (py_round (time_time clk - APP_START_TIME cfg) 2)),
      (asc ''python_version'', PStr (asc (sys_version rt))),
      (asc ''endpoints'', PDict
         [(asc ''health'', PStr (asc ''/health'')),
          (asc ''ready'', PStr (asc ''/ready'')),
          (asc ''metrics'', PStr (asc ''/metrics'')),
          (asc ''docs'', PStr (asc ''/docs'')),
          (asc ''process'', PStr (asc ''/api/process''))])]"

subsection \<open>The framework around the handlers\<close>

text \<open>
  The request schema \<open>MessageRequest\<close> declares one required field, \<open>message: str\<close>. The
  framework validates the parsed JSON body against it before the handler is called: the
  body has to be an object, the entry \<open>message\<close> has to be there, and its value has to be
  a string. Other entries are ignored, a value of another JSON type is not converted to a
  string, and a string is taken as it is, lone surrogates included. The body is the value
  that \<open>json.loads\<close> has produced, an object being a \<open>dict\<close> with distinct keys; a request whose
  body is not JSON is outside the model.
\<close>

datatype validation_failure = not_an_object | field_missing | not_a_string

definition validate_MessageRequest :: "pyval \<Rightarrow> validation_failure + MessageRequest" where
  "validate_MessageRequest body =
     (case body of
        PDict kvs \<Rightarrow>
          (case dict_get kvs (asc ''message'') of
             None \<Rightarrow> Inl field_missing
           | Some (PStr s) \<Rightarrow> Inr \<lparr>message = s\<rparr>
           | Some _ \<Rightarrow> Inl not_a_string)
      | _ \<Rightarrow> Inl not_an_object)"

definition HealthResponse_json :: "HealthResponse \<Rightarrow> pyval" where
  "HealthResponse_json r =
     PDict [(asc ''status'', PStr (status r)),
            (asc ''timestamp'', PStr (HealthResponse.timestamp r)),
            (asc ''uptime_seconds'', PFloat (uptime_seconds r)),
            (asc ''version'', PStr (version r)),
            (asc ''environment'', PStr (environment r))]"

definition MessageResponse_json :: "MessageResponse \<Rightarrow> pyval" where
  "MessageResponse_json r =
     PDict [(asc ''original'', PStr (original r)),
            (asc ''processed'', PStr (processed r)),
            (asc ''length'', PInt (length_field r)),
            (asc ''timestamp'', PStr (MessageResponse.timestamp r))]"

text \<open>
  A returned value is sent as a JSON response with status 200, a raised \<open>HTTPException\<close>
  as \<open>{"detail": ...}\<close> with its own status, a validation failure as 422 with the field
  errors. Each of them is a \<open>JSONResponse\<close> that the framework constructs after the handler.
\<close>

definition ok_response :: "runtime \<Rightarrow> pyval \<Rightarrow> py_exception + Response" where
  "ok_response rt c = JSONResponse rt c 200 (asc ''application/json'')"

definition http_exception_response :: "runtime \<Rightarrow> HTTPException \<Rightarrow> py_exception + Response" where
  "http_exception_response rt h =
     JSONResponse rt (PDict [(asc ''detail'', PStr (detail h))]) (HTTPException.status_code h)
       (asc ''application/json'')"

definition request_validation_response :: "runtime \<Rightarrow> pyval \<Rightarrow> py_exception + Response" where
  "request_validation_response rt body =
     JSONResponse rt (PDict [(asc ''detail'', validation_errors rt body)]) 422
       (asc ''application/json'')"

text \<open>
  An exception that nothing has caught reaches the server, which answers with the plain
  text \<open>Internal Server Error\<close> and status 500.
\<close>

definition internal_server_error :: Response where
  "internal_server_error =
     \<lparr>Response.status_code = 500,
      content = PStr (asc ''Internal Server Error''),
      media_type = asc ''text/plain'',
      raw_body = utf8 (asc ''Internal Server Error'')\<rparr>"

definition respond :: "py_exception + Response \<Rightarrow> Response" where
  "respond r = (case r of Inr resp \<Rightarrow> resp | Inl e \<Rightarrow> internal_server_error)"

datatype request =
    GET_root
  | GET_health
  | GET_ready
  | GET_metrics
  | POST_api_process pyval
  | GET_api_info

fun endpoint ::
  "runtime \<Rightarrow> app_config \<Rightarrow> request \<Rightarrow> clock \<Rightarrow> log_record list \<times> Response" where
  "endpoint rt cfg GET_root clk = ([], respond (ok_response rt (PDict (root cfg))))"
| "endpoint rt cfg GET_health clk =
     ([], respond (ok_response rt (HealthResponse_json (health_check cfg clk))))"
| "endpoint rt cfg GET_ready clk =
     (case readiness_check rt clk of
        (lg, Inr r) \<Rightarrow> (lg, r)
      | (lg, Inl h) \<Rightarrow> (lg, respond (http_exception_response rt h)))"
| "endpoint rt cfg GET_metrics clk = ([], respond (metrics rt cfg clk))"
| "endpoint rt cfg (POST_api_process body) clk =
     (case validate_MessageRequest body of
        Inl f \<Rightarrow> ([], respond (request_validation_response rt body))
      | Inr request \<Rightarrow>
          (case process_message rt request clk of
             (lg, Inr r) \<Rightarrow> (lg, respond (ok_response rt (MessageResponse_json r)))
           | (lg, Inl h) \<Rightarrow> (lg, respond (http_exception_response rt h))))"
| "endpoint rt cfg GET_api_info clk = ([], respond (ok_response rt (PDict (app_info rt cfg clk))))"

declare endpoint.simps [simp del]

subsection \<open>The process\<close>

text \<open>
  The state of the running process: the module globals and what has been logged. A request
  arrives with the clock readings its handler will see.
\<close>

record server =
  config :: app_config
  log_records :: "log_record list"

definition start_process :: "(pystr \<rightharpoonup> pystr) \<Rightarrow> real \<Rightarrow> server" where
  "start_process env now =
     (let cfg = load_module env now in \<lparr>config = cfg, log_records = startup_event cfg\<rparr>)"

definition handle :: "runtime \<Rightarrow> server \<Rightarrow> request \<times> clock \<Rightarrow> Response \<times> server" where
  "handle rt srv rc =
     (let (lg, resp) = endpoint rt (config srv) (fst rc) (snd rc)
      in (resp, srv\<lparr>log_records := log_records srv @ lg\<rparr>))"

fun serve :: "runtime \<Rightarrow> server \<Rightarrow> (request \<times> clock) list \<Rightarrow> Response list \<times> server" where
  "serve rt srv [] = ([], srv)"
| "serve rt srv (rc # rcs) =
     (let (resp, srv') = handle rt srv rc;
          (resps, srv'') = serve rt srv' rcs
      in (resp # resps, srv''))"

text \<open>What a response to a request shows of the configuration.\<close>

definition text_of :: "pyval \<Rightarrow> pystr" where
  "text_of v = (case v of PStr s \<Rightarrow> s | _ \<Rightarrow> [])"

definition field :: "Response \<Rightarrow> string \<Rightarrow> pyval option" where
  "field resp k = (case content resp of PDict kvs \<Rightarrow> dict_get kvs (asc k) | _ \<Rightarrow> None)"

fun shows_config :: "app_config \<Rightarrow> request \<Rightarrow> Response \<Rightarrow> bool" where
  "shows_config cfg GET_root resp \<longleftrightarrow>
     Response.status_code resp = 200 \<and> field resp ''version'' = Some (PStr (APP_VERSION cfg))"
| "shows_config cfg GET_health resp \<longleftrightarrow>
     Response.status_code resp = 200 \<and>
     field resp ''version'' = Some (PStr (APP_VERSION cfg)) \<and>
     field resp ''environment'' = Some (PStr (ENVIRONMENT cfg))"
| "shows_config cfg GET_metrics resp \<longleftrightarrow>
     Response.status_code resp = 200 \<and>
     sublist (app_info_line (APP_VERSION cfg) (ENVIRONMENT cfg)) (text_of (content resp))"
| "shows_config cfg GET_api_info resp \<longleftrightarrow>
     Response.status_code resp = 200 \<and>
     field resp ''version'' = Some (PStr (APP_VERSION cfg)) \<and>
     field resp ''environment'' = Some (PStr (ENVIRONMENT cfg))"
| "shows_config cfg GET_ready resp \<longleftrightarrow> True"
| "shows_config cfg (POST_api_process body) resp \<longleftrightarrow> True"

subsection \<open>Concrete inputs\<close>

text \<open>
  A runtime to compute with. Its case table is the interpreter's on \<open>U+0080..U+00FF\<close>
  (\<open>U+00B5\<close> becomes \<open>U+039C\<close>, \<open>U+00DF\<close> becomes \<open>SS\<close>, \<open>U+00FF\<close> becomes \<open>U+0178\<close>, and
  \<open>U+00E0..U+00FE\<close> but the division sign move down by 32) and leaves every code point
  beyond as it is. Its \<open>float_repr\<close> and \<open>validation_errors\<close> are stand-ins: no property
  below depends on what they return.
\<close>

definition latin1_upper :: "nat \<Rightarrow> pystr" where
  "latin1_upper c =
     (if c = 181 then [924]
      else if c = 223 then [83, 83]
      else if c = 255 then [376]
      else if 224 \<le> c \<and> c \<le> 254 \<and> c \<noteq> 247 then [c - 32]
      else [c])"

definition latin1_runtime :: runtime where
  "latin1_runtime =
     \<lparr>to_upper_full = latin1_upper,
      float_repr = (\<lambda>x. ''1.0''),
      sys_version = ''3.11.10'',
      validation_errors = (\<lambda>b. PList [])\<rparr>"

text \<open>
  A process started without the two environment variables, and one started with
  \<open>APP_VERSION\<close> set to the single byte \<open>0xFF\<close>, which \<open>os.getenv\<close> decodes to the lone
  surrogate \<open>U+DCFF\<close>. Three clock readings, the second a little less than two milliseconds
  after the first; an instant on a full second and one that is not.
\<close>

definition default_config :: app_config where
  "default_config = load_module Map.empty 1700000000"

definition undecodable_env :: "pystr \<rightharpoonup> pystr" where
  "undecodable_env = [asc ''APP_VERSION'' \<mapsto> [56575]]"

definition undecodable_config :: app_config where
  "undecodable_config = load_module undecodable_env 1700000000"

definition utc_full_second :: datetime where
  "utc_full_second =
     \<lparr>year = 2024, month = 1, day = 1, hour = 0, minute = 0, second = 0, microsecond = 0\<rparr>"

definition utc_sample :: datetime where
  "utc_sample =
     \<lparr>year = 2024, month = 3, day = 9, hour = 14, minute = 5, second = 7, microsecond = 120034\<rparr>"

definition clock_a :: clock where
  "clock_a = \<lparr>time_time = 1700000001, utcnow = utc_full_second\<rparr>"

definition clock_b :: clock where
  "clock_b = \<lparr>time_time = 1700000001 + 1 / 512, utcnow = utc_sample\<rparr>"

definition clock_c :: clock where
  "clock_c = \<lparr>time_time = 1700000001 + 1 / 2, utcnow = utc_sample\<rparr>"

text \<open>
  The JSON body \<open>{"message": m}\<close>; the string \<open>" stra\<ss>e"\<close> followed by \<open>U+00A0\<close>; and the
  string that is the lone surrogate \<open>U+D800\<close>.
\<close>

definition message_body :: "pystr \<Rightarrow> pyval" where
  "message_body m = PDict [(asc ''message'', PStr m)]"

definition strasse :: pystr where
  "strasse = [32, 115, 116, 114, 97, 223, 101, 160]"

definition lone_surrogate :: pystr where
  "lone_surrogate = [55296]"

text \<open>Five requests, one after the other.\<close>

definition sample_run :: "(request \<times> clock) list" where
  "sample_run =
     [(GET_root, clock_a), (GET_health, clock_b), (POST_api_process (message_body strasse), clock_b),
      (GET_metrics, clock_c), (GET_api_info, clock_c)]"

section \<open>Properties\<close>

subsection \<open>Upper case and trimming\<close>

lemma upper_Nil: "upper rt [] = []"
  by (simp add: upper_def)

lemma upper_Cons: "upper rt (c # s) = upper_cp rt c @ upper rt s"
  by (simp add: upper_def)

lemma upper_append: "upper rt (s @ t) = upper rt s @ upper rt t"
  by (simp add: upper_def)

lemma upper_cp_space:
  assumes "case_table_keeps_space rt" and "isspace c"
  shows "upper_cp rt c = [c]"
proof (cases "c < 128")
  case True
  with assms(2) show ?thesis
    by (auto simp: upper_cp_def ascii_toupper_def isspace_def)
next
  case False
  with assms show ?thesis
    by (simp add: upper_cp_def case_table_keeps_space_def)
qed

lemma upper_cp_nonspace:
  assumes "case_table_keeps_space rt" and "\<not> isspace c"
  shows "upper_cp rt c \<noteq> [] \<and> \<not> isspace (hd (upper_cp rt c)) \<and> \<not> isspace (last (upper_cp rt c))"
proof (cases "c < 128")
  case True
  with assms(2) show ?thesis
    by (auto simp: upper_cp_def ascii_toupper_def isspace_def)
next
  case False
  with assms show ?thesis
    by (simp add: upper_cp_def case_table_keeps_space_def)
qed

lemma upper_lstrip:
  assumes "case_table_keeps_space rt"
  shows "upper rt (lstrip s) = lstrip (upper rt s)"
proof (induction s)
  case Nil
  show ?case by (simp add: lstrip_def upper_Nil)
next
  case (Cons c s)
  show ?case
  proof (cases "isspace c")
    case True
    with Cons upper_cp_space [OF assms True] show ?thesis
      by (simp add: lstrip_def upper_Cons)
  next
    case False
    from upper_cp_nonspace [OF assms False]
    obtain w ws where w: "upper_cp rt c = w # ws" "\<not> isspace w"
      by (cases "upper_cp rt c") auto
    with False show ?thesis
      by (simp add: lstrip_def upper_Cons)
  qed
qed

lemma rstrip_snoc: "rstrip (s @ [c]) = (if isspace c then rstrip s else s @ [c])"
  by (simp add: rstrip_def)

lemma rstrip_append_nonspace:
  assumes "w \<noteq> []" and "\<not> isspace (last w)"
  shows "rstrip (s @ w) = s @ w"
proof -
  from assms(1) obtain v c where "w = v @ [c]"
    by (cases w rule: rev_cases) auto
  with assms(2) show ?thesis
    using rstrip_snoc [of "s @ v" c] by simp
qed

lemma upper_rstrip:
  assumes "case_table_keeps_space rt"
  shows "upper rt (rstrip s) = rstrip (upper rt s)"
proof (induction s rule: rev_induct)
  case Nil
  show ?case by (simp add: rstrip_def upper_Nil)
next
  case (snoc c s)
  show ?case
  proof (cases "isspace c")
    case True
    with snoc upper_cp_space [OF assms True] show ?thesis
      by (simp add: rstrip_snoc upper_append upper_Cons upper_Nil)
  next
    case False
    from upper_cp_nonspace [OF assms False] rstrip_append_nonspace
    have "rstrip (upper rt s @ upper_cp rt c) = upper rt s @ upper_cp rt c"
      by blast
    with False show ?thesis
      by (simp add: rstrip_snoc upper_append upper_Cons upper_Nil)
  qed
qed

lemma upper_strip:
  assumes "case_table_keeps_space rt"
  shows "upper rt (strip s) = strip (upper rt s)"
  by (simp add: strip_def upper_rstrip [OF assms] upper_lstrip [OF assms])

lemma latin1_keeps_space: "case_table_keeps_space latin1_runtime"
  by (auto simp: case_table_keeps_space_def latin1_runtime_def latin1_upper_def isspace_def)

subsection \<open>Decimal formatting and the ISO shape\<close>

lemma dec_digits: "list_all is_digit (dec n)"
proof (induction n rule: dec.induct)
  case (1 n)
  show ?case
  proof (cases "n < 10")
    case True
    then show ?thesis by (subst dec.simps) (simp add: is_digit_def)
  next
    case False
    have "n mod 10 < 10" by simp
    then have "is_digit (48 + n mod 10)" unfolding is_digit_def by linarith
    with False "1.IH" show ?thesis by (subst dec.simps) simp
  qed
qed

lemma dec_length: "0 < w \<Longrightarrow> n < 10 ^ w \<Longrightarrow> length (dec n) \<le> w"
proof (induction w arbitrary: n)
  case 0
  then show ?case by simp
next
  case (Suc w)
  show ?case
  proof (cases "n < 10")
    case True
    then show ?thesis by (subst dec.simps) simp
  next
    case False
    with Suc.prems have w: "0 < w" by (cases w) auto
    from Suc.prems have "n div 10 < 10 ^ w"
      by (simp add: less_mult_imp_div_less mult.commute)
    from Suc.IH [OF w this] False show ?thesis by (subst dec.simps) simp
  qed
qed

lemma dec_nonempty: "dec n \<noteq> []"
  by (subst dec.simps) simp

lemma zero_pad_shape:
  assumes "0 < w" and "n < 10 ^ w"
  shows "has_shape (replicate w (CHR ''d'')) (zero_pad w n)"
proof -
  have len: "length (zero_pad w n) = w"
    using dec_length [OF assms] by (simp add: zero_pad_def)
  have "list_all is_digit (zero_pad w n)"
    using dec_digits [of n] by (auto simp: zero_pad_def is_digit_def list_all_iff)
  with len show ?thesis
    by (auto simp: has_shape_def list_all2_conv_all_nth list_all_length)
qed

lemma has_shape_append:
  "has_shape t1 s1 \<Longrightarrow> has_shape t2 s2 \<Longrightarrow> has_shape (t1 @ t2) (s1 @ s2)"
  by (simp add: has_shape_def list_all2_appendI)

lemma has_shape_literal: "CHR ''d'' \<notin> set t \<Longrightarrow> has_shape t (asc t)"
  by (induction t) (auto simp: has_shape_def asc_def)

lemma has_shape_length: "has_shape t s \<Longrightarrow> length s = length t"
  by (simp add: has_shape_def list_all2_lengthD)

lemma replicate_4: "replicate 4 c = [c, c, c, c]"
  and replicate_2: "replicate 2 c = [c, c]"
  and replicate_6: "replicate 6 c = [c, c, c, c, c, c]"
  by (simp_all add: numeral_eq_Suc)

lemma pad4: "n \<le> 9999 \<Longrightarrow> has_shape ''dddd'' (zero_pad 4 n)"
  using zero_pad_shape [of 4 n] by (simp add: replicate_4)

lemma pad2: "n < 100 \<Longrightarrow> has_shape ''dd'' (zero_pad 2 n)"
  using zero_pad_shape [of 2 n] by (simp add: replicate_2)

lemma pad6: "n < 1000000 \<Longrightarrow> has_shape ''dddddd'' (zero_pad 6 n)"
  using zero_pad_shape [of 6 n] by (simp add: replicate_6)

lemma isoformat_seconds_part:
  assumes "valid_datetime d"
  shows "has_shape shape_seconds
           (zero_pad 4 (year d) @ asc ''-'' @ zero_pad 2 (month d) @ asc ''-'' @ zero_pad 2 (day d)
            @ asc ''T'' @ zero_pad 2 (hour d) @ asc '':'' @ zero_pad 2 (minute d) @ asc '':''
            @ zero_pad 2 (second d))"
proof -
  from assms have y: "has_shape ''dddd'' (zero_pad 4 (year d))"
    and mo: "has_shape ''dd'' (zero_pad 2 (month d))"
    and da: "has_shape ''dd'' (zero_pad 2 (day d))"
    and h: "has_shape ''dd'' (zero_pad 2 (hour d))"
    and mi: "has_shape ''dd'' (zero_pad 2 (minute d))"
    and s: "has_shape ''dd'' (zero_pad 2 (second d))"
    by (simp_all add: valid_datetime_def pad4 pad2)
  have dash: "has_shape ''-'' (asc ''-'')" and tee: "has_shape ''T'' (asc ''T'')"
    and colon: "has_shape '':'' (asc '':'')"
    by (simp_all add: has_shape_literal)
  have "has_shape (''dddd'' @ ''-'' @ ''dd'' @ ''-'' @ ''dd'' @ ''T'' @ ''dd'' @ '':'' @ ''dd'' @ '':'' @ ''dd'')
          (zero_pad 4 (year d) @ asc ''-'' @ zero_pad 2 (month d) @ asc ''-'' @ zero_pad 2 (day d)
            @ asc ''T'' @ zero_pad 2 (hour d) @ asc '':'' @ zero_pad 2 (minute d) @ asc '':''
            @ zero_pad 2 (second d))"
    by (intro has_shape_append y mo da h mi s dash tee colon)
  then show ?thesis by (simp add: shape_seconds_def)
qed

lemma isoformat_shape_seconds:
  assumes "valid_datetime d" and "microsecond d = 0"
  shows "has_shape shape_seconds (isoformat d)"
  using isoformat_seconds_part [OF assms(1)] assms(2) by (simp add: isoformat_def)

lemma isoformat_shape_micro:
  assumes "valid_datetime d" and "microsecond d \<noteq> 0"
  shows "has_shape shape_micro (isoformat d)"
proof -
  from assms(1) have us: "has_shape ''dddddd'' (zero_pad 6 (microsecond d))"
    by (simp add: valid_datetime_def pad6)
  have dot: "has_shape ''.'' (asc ''.'')"
    by (simp add: has_shape_literal)
  have "has_shape (shape_seconds @ ''.'' @ ''dddddd'') 
     ((zero_pad 4 (year d) @ asc ''-'' @ zero_pad 2 (month d) @ asc ''-'' @ zero_pad 2 (day d)
            @ asc ''T'' @ zero_pad 2 (hour d) @ asc '':'' @ zero_pad 2 (minute d) @ asc '':''
            @ zero_pad 2 (second d)) @ asc ''.'' @ zero_pad 6 (microsecond d))"
    by (intro has_shape_append isoformat_seconds_part [OF assms(1)] dot us)
  with assms(2) show ?thesis
    by (simp add: isoformat_def shape_micro_def shape_seconds_def)
qed

lemma dec_small: "n < 10 \<Longrightarrow> dec n = [48 + n]"
  by (subst dec.simps) simp

lemma dec_large: "10 \<le> n \<Longrightarrow> dec n = dec (n div 10) @ [48 + n mod 10]"
  by (subst dec.simps) simp

subsection \<open>Rounding\<close>

lemma round_half_even_lower: "x - 1 / 2 \<le> of_int (round_half_even x)"
  unfolding round_half_even_def Let_def by (auto; linarith)

lemma round_half_even_upper: "of_int (round_half_even x) \<le> x + 1 / 2"
  unfolding round_half_even_def Let_def by (auto; linarith)

lemma round_half_even_mono:
  assumes "x \<le> y"
  shows "round_half_even x \<le> round_half_even y"
proof (cases "\<lfloor>x\<rfloor> = \<lfloor>y\<rfloor>")
  case True
  with assms show ?thesis
    unfolding round_half_even_def Let_def by auto
next
  case False
  with assms have "\<lfloor>x\<rfloor> + 1 \<le> \<lfloor>y\<rfloor>"
    using floor_mono [OF assms] by linarith
  moreover have "round_half_even x \<le> \<lfloor>x\<rfloor> + 1"
    unfolding round_half_even_def Let_def by auto
  moreover have "\<lfloor>y\<rfloor> \<le> round_half_even y"
    unfolding round_half_even_def Let_def by auto
  ultimately show ?thesis by linarith
qed

lemma round_half_even_strict:
  assumes "x + 1 < y"
  shows "round_half_even x < round_half_even y"
proof -
  have "of_int (round_half_even x) \<le> x + 1 / 2"
    by (rule round_half_even_upper)
  also from assms have "\<dots> < y - 1 / 2" by simp
  also have "\<dots> \<le> of_int (round_half_even y)"
    by (rule round_half_even_lower)
  finally show ?thesis by simp
qed

lemma py_round_mono: "x \<le> y \<Longrightarrow> py_round x n \<le> py_round y n"
  unfolding py_round_def
  by (intro divide_right_mono) (simp_all add: round_half_even_mono)

lemma py_round_2_strict:
  assumes "x + 1 / 100 < y"
  shows "py_round x 2 < py_round y 2"
proof -
  from assms have "x * 10 ^ 2 + 1 < y * 10 ^ 2" by simp
  then have "round_half_even (x * 10 ^ 2) < round_half_even (y * 10 ^ 2)"
    by (rule round_half_even_strict)
  then show ?thesis
    unfolding py_round_def by (simp add: divide_strict_right_mono)
qed

lemma py_round_2_near: "\<bar>py_round x 2 - x\<bar> \<le> 1 / 200"
proof -
  have "x * 100 - 1 / 2 \<le> of_int (round_half_even (x * 100))"
    and "of_int (round_half_even (x * 100)) \<le> x * 100 + 1 / 2"
    by (rule round_half_even_lower, rule round_half_even_upper)
  then have "\<bar>of_int (round_half_even (x * 100)) - x * 100\<bar> \<le> 1 / 2"
    by linarith
  then have "\<bar>of_int (round_half_even (x * 100)) / 100 - x\<bar> * 100 \<le> 1 / 2"
    by (simp add: abs_if field_simps split: if_splits)
  then show ?thesis
    unfolding py_round_def by simp
qed

lemma py_round_2_grid: "\<exists>k::int. py_round x 2 = of_int k / 100"
  unfolding py_round_def by auto

subsection \<open>Encoding\<close>

lemma encodable_iff: "encodable s \<longleftrightarrow> (\<forall>c\<in>set s. scalar c)"
  by (simp add: encodable_def list_all_iff)

lemma encodable_Nil: "encodable []"
  by (simp add: encodable_def)

lemma encodable_Cons: "encodable (c # s) \<longleftrightarrow> scalar c \<and> encodable s"
  by (simp add: encodable_def)

lemma encodable_append: "encodable (s @ t) \<longleftrightarrow> encodable s \<and> encodable t"
  by (simp add: encodable_def)

lemma encodable_concat: "encodable (concat ss) \<longleftrightarrow> (\<forall>s\<in>set ss. encodable s)"
  by (auto simp: encodable_iff)

lemma scalar_small: "c < 55296 \<Longrightarrow> scalar c"
  by (simp add: scalar_def is_surrogate_def)

lemma encodable_asc: "encodable (asc s)"
proof -
  have "of_char c < (55296::nat)" for c :: char
    using nat_of_char_less_256 [of c] by linarith
  then show ?thesis
    by (auto simp: encodable_iff asc_def intro: scalar_small)
qed

lemma ascii_asc: "c \<in> set (asc s) \<Longrightarrow> c < 256"
  by (auto simp: asc_def)

lemma dec_range: "c \<in> set (dec n) \<Longrightarrow> 48 \<le> c \<and> c \<le> 57"
  using dec_digits [of n] by (simp add: list_all_iff is_digit_def)


lemma encodable_dec: "encodable (dec n)"
proof -
  have "c < 55296" if "c \<in> set (dec n)" for c
    using dec_range [OF that] by linarith
  then show ?thesis
    by (auto simp: encodable_iff intro: scalar_small)
qed

lemma encode_from_encodable: "encodable s \<Longrightarrow> encode_from i s = Inr (utf8 s)"
  by (induction s arbitrary: i) (simp_all add: encodable_Cons utf8_def)

lemma encode_from_not_encodable:
  "\<not> encodable s \<Longrightarrow> \<exists>c j. encode_from i s = Inl (UnicodeEncodeError c j)"
proof (induction s arbitrary: i)
  case Nil
  then show ?case by (simp add: encodable_Nil)
next
  case (Cons a s)
  show ?case
  proof (cases "scalar a")
    case True
    with Cons.prems have "\<not> encodable s" by (simp add: encodable_Cons)
    from Cons.IH [OF this, of "Suc i"] obtain c j
      where "encode_from (Suc i) s = Inl (UnicodeEncodeError c j)" by blast
    with True show ?thesis by simp
  next
    case False
    then show ?thesis by simp
  qed
qed

lemma encode_utf8_cases:
  "encode_utf8 s = (if encodable s then Inr (utf8 s) else encode_utf8 s) \<and>
   (\<not> encodable s \<longrightarrow> (\<exists>c j. encode_utf8 s = Inl (UnicodeEncodeError c j)))"
  by (simp add: encode_utf8_def encode_from_encodable encode_from_not_encodable)

lemma scalar_json_escape: "scalar c \<Longrightarrow> encodable (json_escape c)"
  by (simp add: json_escape_def encodable_Cons encodable_Nil scalar_small hex_digit_def)

lemma json_escape_literal: "32 \<le> c \<Longrightarrow> c \<noteq> 34 \<Longrightarrow> c \<noteq> 92 \<Longrightarrow> json_escape c = [c]"
  by (simp add: json_escape_def)

lemma encodable_json_dumps_str: "encodable (json_dumps_str s) \<longleftrightarrow> encodable s"
proof
  assume "encodable s"
  then have "encodable (concat (map json_escape s))"
    unfolding encodable_concat by (auto simp: encodable_iff [of s] scalar_json_escape)
  then show "encodable (json_dumps_str s)"
    by (simp add: json_dumps_str_def encodable_append encodable_Cons encodable_Nil scalar_small)
next
  assume e: "encodable (json_dumps_str s)"
  show "encodable s"
    unfolding encodable_iff
  proof
    fix c assume c: "c \<in> set s"
    show "scalar c"
    proof (cases "c < 55296")
      case True
      then show ?thesis by (rule scalar_small)
    next
      case False
      then have "json_escape c = [c]" by (simp add: json_escape_literal)
      with c have "c \<in> set (json_dumps_str s)"
        by (force simp: json_dumps_str_def)
      with e show ?thesis by (simp add: encodable_iff)
    qed
  qed
qed

lemma encodable_join:
  "encodable sep \<Longrightarrow> (\<forall>s\<in>set ss. encodable s) \<Longrightarrow> encodable (join sep ss)"
  by (induction sep ss rule: join.induct) (simp_all add: encodable_Nil encodable_append)

lemma encodable_json_dumps: "text_ok v \<Longrightarrow> encodable (json_dumps rt v)"
proof (induction v)
  case (PList vs)
  then show ?case
    by (auto simp: encodable_append encodable_asc list_all_iff intro!: encodable_join)
next
  case (PDict kvs)
  have "encodable (json_dumps_str (fst kv) @ asc '':'' @ json_dumps rt (snd kv))"
    if "kv \<in> set kvs" for kv
  proof -
    from that PDict.prems have "encodable (fst kv)" and t: "text_ok (snd kv)"
      by (auto simp: list_all_iff)
    moreover have "snd kv \<in> Basic_BNFs.snds kv"
      by (cases kv) simp
    with PDict.IH that t have "encodable (json_dumps rt (snd kv))"
      by blast
    ultimately show ?thesis
      by (simp add: encodable_append encodable_asc encodable_json_dumps_str)
  qed
  then show ?case
    by (auto simp: encodable_append encodable_asc intro!: encodable_join)
qed (simp_all add: encodable_asc encodable_append encodable_dec encodable_json_dumps_str)

lemma render_text_ok: "text_ok v \<Longrightarrow> render rt v = Inr (utf8 (json_dumps rt v))"
  by (simp add: render_def encode_utf8_def encode_from_encodable encodable_json_dumps)

lemma JSONResponse_text_ok:
  "text_ok v \<Longrightarrow>
     JSONResponse rt v sc mt =
       Inr \<lparr>Response.status_code = sc, content = v, media_type = mt,
            raw_body = utf8 (json_dumps rt v)\<rparr>"
  by (simp add: JSONResponse_def render_text_ok)

lemma JSONResponse_not_encodable:
  "\<not> encodable (json_dumps rt v) \<Longrightarrow> respond (JSONResponse rt v sc mt) = internal_server_error"
  using encode_from_not_encodable [of "json_dumps rt v" 0]
  by (auto simp: JSONResponse_def render_def encode_utf8_def respond_def)

lemma respond_Inr: "respond (Inr r) = r"
  by (simp add: respond_def)

subsection \<open>Decoding\<close>

lemma decode_utf8_cp:
  assumes "scalar c"
  shows "decode_utf8 (utf8_cp c @ bs) = map_option ((#) c) (decode_utf8 bs)"
proof -
  consider "c < 128" | "128 \<le> c" "c < 2048" | "2048 \<le> c" "c < 65536" | "65536 \<le> c"
    by linarith
  then show ?thesis
  proof cases
    case 1
    then show ?thesis by (simp add: utf8_cp_def decode_utf8.simps(2))
  next
    case 2
    define q r where "q = c div 64" and "r = c mod 64"
    with 2 have q: "2 \<le> q" "q < 32" and r: "r < 64" and c: "q * 64 + r = c"
      by simp_all
    from 2 have "utf8_cp c = [192 + q, 128 + r]"
      by (simp add: utf8_cp_def q_def r_def)
    with q r c show ?thesis
      by (simp add: decode_utf8.simps(2) continuation_def)
  next
    case 3
    define p q r where "p = c div 4096" and "q = c div 64 mod 64" and "r = c mod 64"
    have "q * 64 + r = c mod 4096"
      unfolding p_def q_def r_def using mod_mult2_eq [of c 64 64] by simp
    then have c: "p * 4096 + q * 64 + r = c"
      unfolding p_def q_def r_def using div_mult_mod_eq [of c 4096] by linarith
    from 3 have p: "p < 16" and q: "q < 64" and r: "r < 64"
      by (simp_all add: p_def q_def r_def)
    from 3 have "utf8_cp c = [224 + p, 128 + q, 128 + r]"
      by (simp add: utf8_cp_def p_def q_def r_def)
    with p q r c 3 assms show ?thesis
      by (simp add: decode_utf8.simps(2) continuation_def Let_def scalar_def)
  next
    case 4
    from assms have lt: "c < 1114112" by (simp add: scalar_def)
    define n p q r where "n = c div 262144" and "p = c div 4096 mod 64"
      and "q = c div 64 mod 64" and "r = c mod 64"
    have "q * 64 + r = c mod 4096"
      unfolding n_def p_def q_def r_def using mod_mult2_eq [of c 64 64] by simp
    moreover have "p * 4096 + c mod 4096 = c mod 262144"
      unfolding n_def p_def q_def r_def using mod_mult2_eq [of c 4096 64] by simp
    ultimately have c: "n * 262144 + p * 4096 + q * 64 + r = c"
      unfolding n_def p_def q_def r_def using div_mult_mod_eq [of c 262144] by linarith
    from lt have n: "n < 5" and p: "p < 64" and q: "q < 64" and r: "r < 64"
      by (simp_all add: n_def p_def q_def r_def)
    from 4 have "utf8_cp c = [240 + n, 128 + p, 128 + q, 128 + r]"
      by (simp add: utf8_cp_def n_def p_def q_def r_def)
    with n p q r c 4 lt show ?thesis
      by (simp add: decode_utf8.simps(2) continuation_def Let_def)
  qed
qed

lemma decode_utf8_utf8: "encodable s \<Longrightarrow> decode_utf8 (utf8 s) = Some s"
  by (induction s) (simp_all add: utf8_def encodable_Cons decode_utf8_cp)

lemma hex_val_hex_digit: "d < 16 \<Longrightarrow> hex_val (hex_digit d) = Some d"
  by (simp add: hex_val_def hex_digit_def)

lemma scanstring_escape: "scanstring (json_escape c @ r) = map_option ((#) c) (scanstring r)"
proof -
  consider "c = 92" | "c = 34" | "c = 8" | "c = 12" | "c = 10" | "c = 13" | "c = 9"
    | "c < 32" "c \<notin> {8, 9, 10, 12, 13}" | "32 \<le> c" "c \<noteq> 34" "c \<noteq> 92"
    by force
  then show ?thesis
  proof cases
    case 8
    then have h: "hex4 48 48 (hex_digit (c div 16)) (hex_digit (c mod 16)) = Some c"
      by (simp add: hex4_def hex_val_hex_digit) (simp add: hex_val_def)
    from 8 have e: "json_escape c = [92, 117, 48, 48, hex_digit (c div 16), hex_digit (c mod 16)]"
      by (simp add: json_escape_def)
    show ?thesis
      unfolding e using 8(1) by (simp add: scanstring.simps(2) h)
  next
    case 9
    then show ?thesis
      by (simp add: json_escape_literal scanstring.simps(2))
  qed (simp_all add: json_escape_def scanstring.simps(2) unescape_def)
qed

lemma scanstring_escaped: "scanstring (concat (map json_escape s) @ [34]) = Some s"
  by (induction s) (simp_all add: scanstring.simps(2) scanstring_escape)

lemma json_loads_dumps_str: "json_loads_str (json_dumps_str s) = Some s"
  by (simp add: json_loads_str_def json_dumps_str_def scanstring_escaped)

lemma response_json_string:
  "encodable s \<Longrightarrow> response_json (utf8 (json_dumps_str s)) = Some s"
  by (simp add: response_json_def decode_utf8_utf8 encodable_json_dumps_str json_loads_dumps_str)

lemma encodable_join_iff:
  "encodable sep \<Longrightarrow> encodable (join sep ss) \<longleftrightarrow> (\<forall>s\<in>set ss. encodable s)"
  by (induction sep ss rule: join.induct) (auto simp: encodable_Nil encodable_append)

lemma encodable_json_dumps_iff: "encodable (json_dumps rt v) \<longleftrightarrow> text_ok v"
proof (induction v)
  case (PList vs)
  then show ?case
    by (simp add: encodable_append encodable_asc encodable_join_iff list_all_iff)
next
  case (PDict kvs)
  have "encodable (json_dumps_str (fst kv) @ asc '':'' @ json_dumps rt (snd kv))
          \<longleftrightarrow> encodable (fst kv) \<and> text_ok (snd kv)"
    if "kv \<in> set kvs" for kv
  proof -
    have "snd kv \<in> Basic_BNFs.snds kv"
      by (cases kv) simp
    with PDict.IH that have "encodable (json_dumps rt (snd kv)) \<longleftrightarrow> text_ok (snd kv)"
      by blast
    then show ?thesis
      by (simp add: encodable_append encodable_asc encodable_json_dumps_str)
  qed
  then show ?case
    by (simp add: encodable_append encodable_asc encodable_join_iff list_all_iff)
qed (simp_all add: encodable_asc encodable_append encodable_dec encodable_json_dumps_str)

lemma respond_JSONResponse:
  "respond (JSONResponse rt v sc mt) =
     (if text_ok v
      then \<lparr>Response.status_code = sc, content = v, media_type = mt,
            raw_body = utf8 (json_dumps rt v)\<rparr>
      else internal_server_error)"
  by (simp add: JSONResponse_text_ok respond_Inr JSONResponse_not_encodable
        encodable_json_dumps_iff)

subsection \<open>Strings that can be encoded\<close>

lemma encodable_subset: "set t \<subseteq> set s \<Longrightarrow> encodable s \<Longrightarrow> encodable t"
  by (auto simp: encodable_iff)

lemma encodable_strip: "encodable s \<Longrightarrow> encodable (strip s)"
proof -
  have "x \<in> set s" if "x \<in> set (strip s)" for x
  proof -
    from that have "x \<in> set (dropWhile isspace (rev (dropWhile isspace s)))"
      by (simp add: strip_def rstrip_def lstrip_def)
    then have "x \<in> set (rev (dropWhile isspace s))"
      by (rule set_dropWhileD)
    then have "x \<in> set (dropWhile isspace s)"
      by simp
    then show ?thesis
      by (rule set_dropWhileD)
  qed
  then have "set (strip s) \<subseteq> set s"
    by blast
  then show "encodable s \<Longrightarrow> encodable (strip s)"
    by (rule encodable_subset)
qed

lemma encodable_upper_cp:
  assumes "case_table_scalar rt" and "scalar c"
  shows "encodable (upper_cp rt c)"
proof (cases "c < 128")
  case True
  then show ?thesis
    by (simp add: upper_cp_def ascii_toupper_def encodable_Cons encodable_Nil scalar_small)
next
  case False
  with assms show ?thesis
    by (simp add: upper_cp_def case_table_scalar_def)
qed

lemma encodable_upper:
  "case_table_scalar rt \<Longrightarrow> encodable m \<Longrightarrow> encodable (upper rt m)"
  by (auto simp: upper_def encodable_concat encodable_upper_cp encodable_iff [of m])

lemma latin1_scalar: "case_table_scalar latin1_runtime"
  by (auto simp: case_table_scalar_def latin1_runtime_def latin1_upper_def encodable_Cons
        encodable_Nil scalar_def is_surrogate_def)

lemma zero_pad_range: "c \<in> set (zero_pad w n) \<Longrightarrow> 48 \<le> c \<and> c \<le> 57"
  using dec_range [of c n] by (auto simp: zero_pad_def)

text \<open>The characters that a JSON string and UTF-8 leave as they are.\<close>

lemma json_dumps_str_plain:
  assumes "\<forall>c\<in>set s. 32 \<le> c \<and> c \<noteq> 34 \<and> c \<noteq> 92"
  shows "json_dumps_str s = [34] @ s @ [34]"
proof -
  from assms have "concat (map json_escape s) = s"
    by (induction s) (simp_all add: json_escape_literal)
  then show ?thesis by (simp add: json_dumps_str_def)
qed

lemma utf8_ascii: "\<forall>c\<in>set s. c < 128 \<Longrightarrow> utf8 s = s"
  by (induction s) (simp_all add: utf8_def utf8_cp_def)

lemma isoformat_range:
  "c \<in> set (isoformat d) \<Longrightarrow> 45 \<le> c \<and> c \<le> 84"
  by (auto simp: isoformat_def asc_def dest!: zero_pad_range split: if_splits)

lemma encodable_isoformat: "encodable (isoformat d)"
proof -
  have "scalar c" if "c \<in> set (isoformat d)" for c
    using isoformat_range [OF that] by (intro scalar_small) linarith
  then show ?thesis by (simp add: encodable_iff)
qed

lemma json_dumps_str_isoformat: "json_dumps_str (isoformat d) = [34] @ isoformat d @ [34]"
proof (rule json_dumps_str_plain, rule ballI)
  fix c assume "c \<in> set (isoformat d)"
  from isoformat_range [OF this] show "32 \<le> c \<and> c \<noteq> 34 \<and> c \<noteq> 92" by linarith
qed

subsection \<open>The handlers evaluated\<close>

lemma field_PDict:
  "field \<lparr>Response.status_code = sc, content = PDict kvs, media_type = mt, raw_body = b\<rparr> k
     = dict_get kvs (asc k)"
  by (simp add: field_def)

lemma field_internal_server_error: "field internal_server_error k = None"
  by (simp add: field_def internal_server_error_def)

lemma status_internal_server_error: "Response.status_code internal_server_error = 500"
  by (simp add: internal_server_error_def)

lemma process_message_try_returns:
  "process_message_try rt request clk =
     ([(INFO, asc ''Processed message: '' @ message request @ asc '' -> ''
              @ strip (upper rt (message request)))],
      Inr \<lparr>original = message request,
           processed = strip (upper rt (message request)),
           length_field = len (strip (upper rt (message request))),
           MessageResponse.timestamp = isoformat (utcnow clk)\<rparr>)"
  by (simp add: process_message_try_def Let_def)

lemma process_message_returns:
  "process_message rt request clk =
     ([(INFO, asc ''Processed message: '' @ message request @ asc '' -> ''
              @ strip (upper rt (message request)))],
      Inr \<lparr>original = message request,
           processed = strip (upper rt (message request)),
           length_field = len (strip (upper rt (message request))),
           MessageResponse.timestamp = isoformat (utcnow clk)\<rparr>)"
  by (simp add: process_message_def try_except_def process_message_try_returns)

lemma validate_PDict:
  "validate_MessageRequest (PDict kvs) = Inr \<lparr>message = m\<rparr>
     \<longleftrightarrow> map_of kvs (asc ''message'') = Some (PStr m)"
  by (simp add: validate_MessageRequest_def dict_get_def split: option.splits pyval.splits)

lemma validate_accepts_iff:
  "validate_MessageRequest body = Inr request \<longleftrightarrow>
     (\<exists>kvs. body = PDict kvs \<and> map_of kvs (asc ''message'') = Some (PStr (message request)))"
  by (cases request)
     (auto simp: validate_MessageRequest_def dict_get_def split: option.splits pyval.splits)


lemma validate_message_body: "validate_MessageRequest (message_body m) = Inr \<lparr>message = m\<rparr>"
  by (simp add: message_body_def validate_PDict)

lemma text_ok_MessageResponse:
  "text_ok (MessageResponse_json r) \<longleftrightarrow>
     encodable (original r) \<and> encodable (processed r) \<and> encodable (MessageResponse.timestamp r)"
  by (simp add: MessageResponse_json_def encodable_asc)

lemma endpoint_process_accepted:
  assumes "validate_MessageRequest body = Inr request"
  shows "endpoint rt cfg (POST_api_process body) clk =
     ([(INFO, asc ''Processed message: '' @ message request @ asc '' -> ''
              @ strip (upper rt (message request)))],
      respond (ok_response rt (MessageResponse_json
        \<lparr>original = message request, processed = strip (upper rt (message request)),
         length_field = len (strip (upper rt (message request))),
         MessageResponse.timestamp = isoformat (utcnow clk)\<rparr>)))"
  by (simp add: endpoint.simps assms process_message_returns)

lemma endpoint_process_rejected:
  assumes "validate_MessageRequest body = Inl f"
  shows "endpoint rt cfg (POST_api_process body) clk =
           ([], respond (request_validation_response rt body))"
  by (simp add: endpoint.simps assms)

lemma ok_response_sent:
  "respond (ok_response rt v) =
     (if text_ok v
      then \<lparr>Response.status_code = 200, content = v, media_type = asc ''application/json'',
            raw_body = utf8 (json_dumps rt v)\<rparr>
      else internal_server_error)"
  by (simp add: ok_response_def respond_JSONResponse)

lemma process_response_accepted:
  assumes "validate_MessageRequest body = Inr \<lparr>message = m\<rparr>"
    and "encodable m" and "encodable (strip (upper rt m))"
  shows "snd (endpoint rt cfg (POST_api_process body) clk) =
     \<lparr>Response.status_code = 200,
      content = MessageResponse_json
        \<lparr>original = m, processed = strip (upper rt m), length_field = len (strip (upper rt m)),
         MessageResponse.timestamp = isoformat (utcnow clk)\<rparr>,
      media_type = asc ''application/json'',
      raw_body = utf8 (json_dumps rt (MessageResponse_json
        \<lparr>original = m, processed = strip (upper rt m), length_field = len (strip (upper rt m)),
         MessageResponse.timestamp = isoformat (utcnow clk)\<rparr>))\<rparr>"
  using assms(2,3)
  by (simp add: endpoint_process_accepted [OF assms(1)] ok_response_sent text_ok_MessageResponse
        encodable_isoformat)

lemma process_response_not_encodable:
  assumes "validate_MessageRequest body = Inr \<lparr>message = m\<rparr>" and "\<not> encodable m"
  shows "snd (endpoint rt cfg (POST_api_process body) clk) = internal_server_error"
  using assms(2)
  by (simp add: endpoint_process_accepted [OF assms(1)] ok_response_sent text_ok_MessageResponse)

lemma MessageResponse_fields:
  "field \<lparr>Response.status_code = sc, content = MessageResponse_json r, media_type = mt,
          raw_body = b\<rparr> ''original'' = Some (PStr (original r))"
  "field \<lparr>Response.status_code = sc, content = MessageResponse_json r, media_type = mt,
          raw_body = b\<rparr> ''processed'' = Some (PStr (processed r))"
  "field \<lparr>Response.status_code = sc, content = MessageResponse_json r, media_type = mt,
          raw_body = b\<rparr> ''length'' = Some (PInt (length_field r))"
  "field \<lparr>Response.status_code = sc, content = MessageResponse_json r, media_type = mt,
          raw_body = b\<rparr> ''timestamp'' = Some (PStr (MessageResponse.timestamp r))"
  by (simp_all add: field_def MessageResponse_json_def dict_get_def asc_def)

lemma upper_ascii_examples:
  "strip (upper rt (asc ''hello world'')) = asc ''HELLO WORLD''"
  "strip (upper rt (asc '''')) = asc ''''"
  "strip (upper rt (asc ''  test message  '')) = asc ''TEST MESSAGE''"
  by (simp_all add: asc_def strip_def upper_def lstrip_def rstrip_def upper_cp_def
        ascii_toupper_def isspace_def)

lemma len_asc: "len (asc s) = int (length s)"
  by (simp add: len_def asc_def)

lemma strasse_upper: "strip (upper latin1_runtime strasse) = asc ''STRASSE''"
  by (simp add: strasse_def asc_def strip_def upper_def lstrip_def rstrip_def upper_cp_def
        ascii_toupper_def isspace_def latin1_runtime_def latin1_upper_def)

lemma strasse_encodable: "encodable strasse"
  by (simp add: strasse_def encodable_Cons encodable_Nil scalar_small)

lemma lone_surrogate_not_encodable: "\<not> encodable lone_surrogate"
  by (simp add: lone_surrogate_def encodable_Cons scalar_def is_surrogate_def)

text \<open>
  C1. For every string \<open>m\<close>, \<open>process_message\<close> returns \<open>original = m\<close>,
  \<open>processed = m.upper().strip()\<close> and \<open>length = len(processed)\<close>. When \<open>m\<close> holds no lone
  surrogate (and the case table of the runtime maps scalar values to scalar values, as the
  Unicode one does), a body accepted with this message is answered 200 with these fields.
  Trimming first and converting afterwards gives the same string, on the condition that
  the case table keeps white space. The three inputs of the test suite give \<open>HELLO WORLD\<close>
  of length 11, the empty string of length 0 and \<open>TEST MESSAGE\<close>.
\<close>

theorem process_response_fields:
  "(validate_MessageRequest body = Inr \<lparr>message = m\<rparr> \<and> encodable m \<and> case_table_scalar rt \<longrightarrow>
      (let resp = snd (endpoint rt cfg (POST_api_process body) clk)
       in Response.status_code resp = 200 \<and>
          field resp ''original'' = Some (PStr m) \<and>
          field resp ''processed'' = Some (PStr (strip (upper rt m))) \<and>
          field resp ''length'' = Some (PInt (len (strip (upper rt m)))))) \<and>
   snd (process_message rt \<lparr>message = m\<rparr> clk) =
     Inr \<lparr>original = m, processed = strip (upper rt m), length_field = len (strip (upper rt m)),
          MessageResponse.timestamp = isoformat (utcnow clk)\<rparr> \<and>
   validate_MessageRequest (message_body m) = Inr \<lparr>message = m\<rparr> \<and>
   (case_table_keeps_space rt \<longrightarrow> strip (upper rt m) = upper rt (strip m)) \<and>
   len (strip (upper rt m)) = int (length (strip (upper rt m))) \<and>
   (let resp = snd (endpoint rt cfg (POST_api_process (message_body (asc ''hello world''))) clk)
    in Response.status_code resp = 200 \<and>
       field resp ''processed'' = Some (PStr (asc ''HELLO WORLD'')) \<and>
       field resp ''length'' = Some (PInt 11)) \<and>
   (let resp = snd (endpoint rt cfg (POST_api_process (message_body (asc ''''))) clk)
    in Response.status_code resp = 200 \<and>
       field resp ''processed'' = Some (PStr (asc '''')) \<and>
       field resp ''length'' = Some (PInt 0)) \<and>
   (let resp = snd (endpoint rt cfg (POST_api_process (message_body (asc ''  test message  ''))) clk)
    in Response.status_code resp = 200 \<and>
       field resp ''processed'' = Some (PStr (asc ''TEST MESSAGE'')))"
proof (intro conjI impI)
  assume a: "validate_MessageRequest body = Inr \<lparr>message = m\<rparr> \<and> encodable m \<and> case_table_scalar rt"
  then have "encodable (strip (upper rt m))"
    by (simp add: encodable_strip encodable_upper)
  with a show "let resp = snd (endpoint rt cfg (POST_api_process body) clk)
       in Response.status_code resp = 200 \<and>
          field resp ''original'' = Some (PStr m) \<and>
          field resp ''processed'' = Some (PStr (strip (upper rt m))) \<and>
          field resp ''length'' = Some (PInt (len (strip (upper rt m))))"
    by (simp add: process_response_accepted MessageResponse_fields)
next
  show "snd (process_message rt \<lparr>message = m\<rparr> clk) =
     Inr \<lparr>original = m, processed = strip (upper rt m), length_field = len (strip (upper rt m)),
          MessageResponse.timestamp = isoformat (utcnow clk)\<rparr>"
    by (simp add: process_message_returns)
next
  show "validate_MessageRequest (message_body m) = Inr \<lparr>message = m\<rparr>"
    by (rule validate_message_body)
next
  assume "case_table_keeps_space rt"
  then show "strip (upper rt m) = upper rt (strip m)"
    by (simp add: upper_strip)
next
  show "len (strip (upper rt m)) = int (length (strip (upper rt m)))"
    by (simp add: len_def)
next
  show "let resp = snd (endpoint rt cfg (POST_api_process (message_body (asc ''hello world''))) clk)
    in Response.status_code resp = 200 \<and>
       field resp ''processed'' = Some (PStr (asc ''HELLO WORLD'')) \<and>
       field resp ''length'' = Some (PInt 11)"
    by (simp add: process_response_accepted [OF validate_message_body] upper_ascii_examples
          encodable_asc MessageResponse_fields len_asc)
next
  show "let resp = snd (endpoint rt cfg (POST_api_process (message_body (asc ''''))) clk)
    in Response.status_code resp = 200 \<and>
       field resp ''processed'' = Some (PStr (asc '''')) \<and>
       field resp ''length'' = Some (PInt 0)"
    by (simp add: process_response_accepted [OF validate_message_body] upper_ascii_examples
          encodable_asc MessageResponse_fields len_asc)
next
  show "let resp = snd (endpoint rt cfg (POST_api_process (message_body (asc ''  test message  ''))) clk)
    in Response.status_code resp = 200 \<and>
       field resp ''processed'' = Some (PStr (asc ''TEST MESSAGE''))"
    by (simp add: process_response_accepted [OF validate_message_body] upper_ascii_examples
          encodable_asc MessageResponse_fields)
qed

theorem process_response_fields_witness:
  "validate_MessageRequest (message_body strasse) = Inr \<lparr>message = strasse\<rparr> \<and>
   encodable strasse \<and> case_table_scalar latin1_runtime \<and>
   case_table_keeps_space latin1_runtime \<and>
   Response.status_code
     (snd (endpoint latin1_runtime default_config (POST_api_process (message_body strasse)) clock_a))
     = 200 \<and>
   field (snd (endpoint latin1_runtime default_config (POST_api_process (message_body strasse)) clock_a))
     ''processed'' = Some (PStr (asc ''STRASSE'')) \<and>
   field (snd (endpoint latin1_runtime default_config (POST_api_process (message_body strasse)) clock_a))
     ''length'' = Some (PInt 7) \<and>
   upper latin1_runtime (strip strasse) = asc ''STRASSE''"
  using process_response_fields [of "message_body strasse" strasse latin1_runtime default_config clock_a]
  by (simp add: validate_message_body strasse_encodable latin1_scalar latin1_keeps_space
        strasse_upper Let_def len_asc)

text \<open>
  The body \<open>{"message": m}\<close> with \<open>m\<close> the lone surrogate \<open>U+D800\<close> is accepted and the
  handler returns its \<open>MessageResponse\<close>, but the response cannot be encoded: the answer is
  500 and has no \<open>processed\<close> field.
\<close>

theorem process_lone_surrogate_counterexample:
  "validate_MessageRequest (message_body lone_surrogate) = Inr \<lparr>message = lone_surrogate\<rparr> \<and>
   Response.status_code
     (snd (endpoint latin1_runtime default_config (POST_api_process (message_body lone_surrogate))
        clock_a)) = 500 \<and>
   field (snd (endpoint latin1_runtime default_config (POST_api_process (message_body lone_surrogate))
        clock_a)) ''processed'' = None"
  by (simp add: validate_message_body
        process_response_not_encodable [OF validate_message_body lone_surrogate_not_encodable]
        status_internal_server_error field_internal_server_error)

subsection \<open>Health\<close>

lemma HealthResponse_fields:
  "field \<lparr>Response.status_code = sc, content = HealthResponse_json r, media_type = mt,
          raw_body = b\<rparr> ''status'' = Some (PStr (status r))"
  "field \<lparr>Response.status_code = sc, content = HealthResponse_json r, media_type = mt,
          raw_body = b\<rparr> ''timestamp'' = Some (PStr (HealthResponse.timestamp r))"
  "field \<lparr>Response.status_code = sc, content = HealthResponse_json r, media_type = mt,
          raw_body = b\<rparr> ''uptime_seconds'' = Some (PFloat (uptime_seconds r))"
  "field \<lparr>Response.status_code = sc, content = HealthResponse_json r, media_type = mt,
          raw_body = b\<rparr> ''version'' = Some (PStr (version r))"
  "field \<lparr>Response.status_code = sc, content = HealthResponse_json r, media_type = mt,
          raw_body = b\<rparr> ''environment'' = Some (PStr (environment r))"
  by (simp_all add: field_def HealthResponse_json_def dict_get_def asc_def)

lemma health_check_fields:
  "status (health_check cfg clk) = asc ''healthy''"
  "HealthResponse.timestamp (health_check cfg clk) = isoformat (utcnow clk)"
  "uptime_seconds (health_check cfg clk) = py_round (time_time clk - APP_START_TIME cfg) 2"
  "version (health_check cfg clk) = APP_VERSION cfg"
  "environment (health_check cfg clk) = ENVIRONMENT cfg"
  by (simp_all add: health_check_def Let_def)

lemma text_ok_HealthResponse:
  "text_ok (HealthResponse_json (health_check cfg clk)) \<longleftrightarrow>
     encodable (APP_VERSION cfg) \<and> encodable (ENVIRONMENT cfg)"
  by (simp add: HealthResponse_json_def health_check_fields encodable_asc encodable_isoformat)

lemma endpoint_health:
  "snd (endpoint rt cfg GET_health clk) =
     (if encodable (APP_VERSION cfg) \<and> encodable (ENVIRONMENT cfg)
      then \<lparr>Response.status_code = 200,
            content = HealthResponse_json (health_check cfg clk),
            media_type = asc ''application/json'',
            raw_body = utf8 (json_dumps rt (HealthResponse_json (health_check cfg clk)))\<rparr>
      else internal_server_error)"
  by (simp add: endpoint.simps ok_response_sent text_ok_HealthResponse)

lemma default_config_fields:
  "APP_START_TIME default_config = 1700000000"
  "APP_VERSION default_config = asc ''1.0.0''"
  "ENVIRONMENT default_config = asc ''development''"
  by (simp_all add: default_config_def load_module_def getenv_def)

lemma undecodable_config_fields:
  "APP_START_TIME undecodable_config = 1700000000"
  "APP_VERSION undecodable_config = [56575]"
  "ENVIRONMENT undecodable_config = asc ''development''"
  by (simp_all add: undecodable_config_def undecodable_env_def load_module_def getenv_def asc_def)

lemma undecodable_version: "\<not> encodable (APP_VERSION undecodable_config)"
  by (simp add: undecodable_config_fields encodable_Cons scalar_def is_surrogate_def)

lemma uptime_at_clocks:
  "py_round (time_time clock_a - APP_START_TIME default_config) 2 = 1"
  "py_round (time_time clock_b - APP_START_TIME default_config) 2 = 1"
  "py_round (time_time clock_c - APP_START_TIME default_config) 2 = 3 / 2"
  by (simp_all add: default_config_fields clock_a_def clock_b_def clock_c_def py_round_def
        round_half_even_def Let_def)

text \<open>
  C2. \<open>health_check\<close> returns \<open>status = "healthy"\<close>, the version and environment of the
  configuration, and \<open>uptime_seconds = round(now - start, 2)\<close>: a multiple of one hundredth
  that is at most half a hundredth away from the time elapsed since the start. When the
  configured version and environment hold no lone surrogate, \<open>GET /health\<close> answers 200
  with these fields.
\<close>

theorem health_response:
  "(encodable (APP_VERSION cfg) \<and> encodable (ENVIRONMENT cfg) \<longrightarrow>
      (let resp = snd (endpoint rt cfg GET_health clk); up = time_time clk - APP_START_TIME cfg
       in Response.status_code resp = 200 \<and>
          field resp ''status'' = Some (PStr (asc ''healthy'')) \<and>
          field resp ''version'' = Some (PStr (APP_VERSION cfg)) \<and>
          field resp ''environment'' = Some (PStr (ENVIRONMENT cfg)) \<and>
          field resp ''uptime_seconds'' = Some (PFloat (py_round up 2)))) \<and>
   health_check cfg clk =
     \<lparr>status = asc ''healthy'',
      HealthResponse.timestamp = isoformat (utcnow clk),
      uptime_seconds = py_round (time_time clk - APP_START_TIME cfg) 2,
      version = APP_VERSION cfg,
      environment = ENVIRONMENT cfg\<rparr> \<and>
   (\<exists>k::int. py_round (time_time clk - APP_START_TIME cfg) 2 = of_int k / 100) \<and>
   \<bar>py_round (time_time clk - APP_START_TIME cfg) 2 - (time_time clk - APP_START_TIME cfg)\<bar>
     \<le> 1 / 200"
proof (intro conjI impI)
  assume "encodable (APP_VERSION cfg) \<and> encodable (ENVIRONMENT cfg)"
  then show "let resp = snd (endpoint rt cfg GET_health clk); up = time_time clk - APP_START_TIME cfg
       in Response.status_code resp = 200 \<and>
          field resp ''status'' = Some (PStr (asc ''healthy'')) \<and>
          field resp ''version'' = Some (PStr (APP_VERSION cfg)) \<and>
          field resp ''environment'' = Some (PStr (ENVIRONMENT cfg)) \<and>
          field resp ''uptime_seconds'' = Some (PFloat (py_round up 2))"
    by (simp add: endpoint_health HealthResponse_fields health_check_fields)
next
  show "health_check cfg clk =
     \<lparr>status = asc ''healthy'',
      HealthResponse.timestamp = isoformat (utcnow clk),
      uptime_seconds = py_round (time_time clk - APP_START_TIME cfg) 2,
      version = APP_VERSION cfg,
      environment = ENVIRONMENT cfg\<rparr>"
    by (simp add: health_check_def Let_def)
next
  show "\<exists>k::int. py_round (time_time clk - APP_START_TIME cfg) 2 = of_int k / 100"
    by (rule py_round_2_grid)
next
  show "\<bar>py_round (time_time clk - APP_START_TIME cfg) 2 - (time_time clk - APP_START_TIME cfg)\<bar>
          \<le> 1 / 200"
    by (rule py_round_2_near)
qed

theorem health_response_witness:
  "encodable (APP_VERSION default_config) \<and> encodable (ENVIRONMENT default_config) \<and>
   Response.status_code (snd (endpoint latin1_runtime default_config GET_health clock_b)) = 200 \<and>
   field (snd (endpoint latin1_runtime default_config GET_health clock_b)) ''status''
     = Some (PStr (asc ''healthy'')) \<and>
   field (snd (endpoint latin1_runtime default_config GET_health clock_b)) ''version''
     = Some (PStr (asc ''1.0.0'')) \<and>
   field (snd (endpoint latin1_runtime default_config GET_health clock_b)) ''environment''
     = Some (PStr (asc ''development'')) \<and>
   field (snd (endpoint latin1_runtime default_config GET_health clock_b)) ''uptime_seconds''
     = Some (PFloat 1)"
  using health_response [of default_config latin1_runtime clock_b]
  by (simp add: Let_def default_config_fields(2,3) uptime_at_clocks encodable_asc)

text \<open>
  A process started with \<open>APP_VERSION\<close> set to the byte \<open>0xFF\<close> has the version \<open>U+DCFF\<close>; its
  \<open>/health\<close> response cannot be encoded, and the answer is 500 without a \<open>status\<close> field.
\<close>

theorem health_undecodable_version_counterexample:
  "APP_VERSION (load_module undecodable_env 1700000000) = [56575] \<and>
   Response.status_code
     (snd (endpoint latin1_runtime (load_module undecodable_env 1700000000) GET_health clock_b))
     = 500 \<and>
   field (snd (endpoint latin1_runtime (load_module undecodable_env 1700000000) GET_health clock_b))
     ''status'' = None"
  using undecodable_version undecodable_config_fields(2)
  by (simp add: undecodable_config_def endpoint_health status_internal_server_error
        field_internal_server_error)

text \<open>
  C5. With the same start time, a later clock reading never gives a smaller
  \<open>uptime_seconds\<close>, and a reading more than one hundredth of a second later gives a
  strictly larger one.
\<close>

theorem uptime_monotone:
  "(time_time c1 \<le> time_time c2 \<longrightarrow>
      uptime_seconds (health_check cfg c1) \<le> uptime_seconds (health_check cfg c2)) \<and>
   (time_time c1 + 1 / 100 < time_time c2 \<longrightarrow>
      uptime_seconds (health_check cfg c1) < uptime_seconds (health_check cfg c2))"
proof (intro conjI impI)
  assume "time_time c1 \<le> time_time c2"
  then have "time_time c1 - APP_START_TIME cfg \<le> time_time c2 - APP_START_TIME cfg"
    by simp
  then show "uptime_seconds (health_check cfg c1) \<le> uptime_seconds (health_check cfg c2)"
    by (simp only: health_check_fields py_round_mono)
next
  assume "time_time c1 + 1 / 100 < time_time c2"
  then have "(time_time c1 - APP_START_TIME cfg) + 1 / 100 < time_time c2 - APP_START_TIME cfg"
    by simp
  then show "uptime_seconds (health_check cfg c1) < uptime_seconds (health_check cfg c2)"
    by (simp only: health_check_fields py_round_2_strict)
qed

theorem uptime_monotone_witness:
  "time_time clock_a \<le> time_time clock_c \<and>
   time_time clock_a + 1 / 100 < time_time clock_c \<and>
   uptime_seconds (health_check default_config clock_a)
     \<le> uptime_seconds (health_check default_config clock_c) \<and>
   uptime_seconds (health_check default_config clock_a)
     < uptime_seconds (health_check default_config clock_c)"
  using uptime_monotone [of clock_a clock_c default_config]
  by (simp add: clock_a_def clock_c_def)

text \<open>
  The two readings \<open>clock_a\<close> and \<open>clock_b\<close> are a positive time apart, and \<open>/health\<close>
  reports the same \<open>uptime_seconds\<close>, \<open>1.0\<close>, at both.
\<close>

theorem uptime_short_sleep_counterexample:
  "time_time clock_a < time_time clock_b \<and>
   \<not> uptime_seconds (health_check default_config clock_a)
       < uptime_seconds (health_check default_config clock_b)"
  by (simp add: health_check_fields uptime_at_clocks) (simp add: clock_a_def clock_b_def)

subsection \<open>Validation and faults\<close>

lemma request_validation_sent:
  "respond (request_validation_response rt body) =
     (if text_ok (validation_errors rt body)
      then \<lparr>Response.status_code = 422,
            content = PDict [(asc ''detail'', validation_errors rt body)],
            media_type = asc ''application/json'',
            raw_body = utf8 (json_dumps rt (PDict [(asc ''detail'', validation_errors rt body)]))\<rparr>
      else internal_server_error)"
  by (simp add: request_validation_response_def respond_JSONResponse encodable_asc)

lemma ok_response_status:
  "Response.status_code (respond (ok_response rt v)) = (if text_ok v then 200 else 500)"
  by (simp add: ok_response_sent status_internal_server_error)

lemma endpoint_process_status:
  "Response.status_code (snd (endpoint rt cfg (POST_api_process body) clk)) =
     (case validate_MessageRequest body of
        Inl f \<Rightarrow> if text_ok (validation_errors rt body) then 422 else 500
      | Inr request \<Rightarrow>
          if encodable (message request) \<and> encodable (strip (upper rt (message request)))
          then 200 else 500)"
proof (cases "validate_MessageRequest body")
  case (Inl f)
  then show ?thesis
    by (simp add: endpoint_process_rejected request_validation_sent status_internal_server_error)
next
  case (Inr request)
  then show ?thesis
    by (simp add: endpoint_process_accepted ok_response_status text_ok_MessageResponse
          encodable_isoformat)
qed





text \<open>
  C9. The body of the \<open>try\<close> in \<open>process_message\<close> returns for every request, so the handler
  returns a \<open>MessageResponse\<close> and never raises: no answer to an accepted body is the
  handler's \<open>{"detail": "Internal server error"}\<close>. An accepted body is answered 200, or, when
  the response cannot be encoded after the handler has returned, with the plain
  \<open>Internal Server Error\<close> of the server. Had the body of the \<open>try\<close> raised an exception \<open>e\<close>,
  the handler would raise \<open>HTTPException(500, "Internal server error")\<close>, sent as
  \<open>{"detail": "Internal server error"}\<close> whatever \<open>e\<close> is; \<open>str(e)\<close> goes to the log only.
\<close>

theorem process_never_faults:
  "(\<exists>lg r. process_message_try rt request clk = (lg, Inr r)) \<and>
   (\<exists>lg r. process_message rt request clk = (lg, Inr r)) \<and>
   (validate_MessageRequest body = Inr request \<longrightarrow>
      content (snd (endpoint rt cfg (POST_api_process body) clk))
        \<noteq> PDict [(asc ''detail'', PStr (asc ''Internal server error''))] \<and>
      (Response.status_code (snd (endpoint rt cfg (POST_api_process body) clk)) = 200 \<or>
       snd (endpoint rt cfg (POST_api_process body) clk) = internal_server_error) \<and>
      (encodable (message request) \<and> case_table_scalar rt \<longrightarrow>
         Response.status_code (snd (endpoint rt cfg (POST_api_process body) clk)) = 200)) \<and>
   (\<forall>lg e. snd (try_except (lg, Inl e) process_message_except)
      = (Inl \<lparr>HTTPException.status_code = 500, detail = asc ''Internal server error''\<rparr>
           :: HTTPException + MessageResponse)) \<and>
   (\<forall>lg e. fst (try_except (lg, Inl e :: py_exception + MessageResponse) process_message_except)
      = lg @ [(ERROR, asc ''Error processing message: '' @ exc_str e)]) \<and>
   respond (http_exception_response rt
      \<lparr>HTTPException.status_code = 500, detail = asc ''Internal server error''\<rparr>)
      = \<lparr>Response.status_code = 500,
         content = PDict [(asc ''detail'', PStr (asc ''Internal server error''))],
         media_type = asc ''application/json'',
         raw_body = utf8 (json_dumps rt
           (PDict [(asc ''detail'', PStr (asc ''Internal server error''))]))\<rparr>"
proof (intro conjI allI impI)
  show "\<exists>lg r. process_message_try rt request clk = (lg, Inr r)"
    by (simp add: process_message_try_returns)
  show "\<exists>lg r. process_message rt request clk = (lg, Inr r)"
    by (simp add: process_message_returns)
next
  assume v: "validate_MessageRequest body = Inr request"
  show "content (snd (endpoint rt cfg (POST_api_process body) clk))
        \<noteq> PDict [(asc ''detail'', PStr (asc ''Internal server error''))]"
    by (simp add: endpoint_process_accepted [OF v] ok_response_sent internal_server_error_def
          MessageResponse_json_def)
  show "Response.status_code (snd (endpoint rt cfg (POST_api_process body) clk)) = 200 \<or>
       snd (endpoint rt cfg (POST_api_process body) clk) = internal_server_error"
    by (simp add: endpoint_process_accepted [OF v] ok_response_sent)
  show "Response.status_code (snd (endpoint rt cfg (POST_api_process body) clk)) = 200"
    if "encodable (message request) \<and> case_table_scalar rt"
    using that v by (simp add: endpoint_process_status encodable_strip encodable_upper)
next
  show "respond (http_exception_response rt
      \<lparr>HTTPException.status_code = 500, detail = asc ''Internal server error''\<rparr>)
      = \<lparr>Response.status_code = 500,
         content = PDict [(asc ''detail'', PStr (asc ''Internal server error''))],
         media_type = asc ''application/json'',
         raw_body = utf8 (json_dumps rt
           (PDict [(asc ''detail'', PStr (asc ''Internal server error''))]))\<rparr>"
    by (simp add: http_exception_response_def respond_JSONResponse encodable_asc)
qed (simp_all add: try_except_def process_message_except_def)

theorem process_never_faults_witness:
  "validate_MessageRequest (message_body strasse) = Inr \<lparr>message = strasse\<rparr> \<and>
   encodable (message \<lparr>message = strasse\<rparr>) \<and> case_table_scalar latin1_runtime \<and>
   Response.status_code
     (snd (endpoint latin1_runtime default_config (POST_api_process (message_body strasse)) clock_a))
     = 200 \<and>
   content
     (snd (endpoint latin1_runtime default_config (POST_api_process (message_body strasse)) clock_a))
     \<noteq> PDict [(asc ''detail'', PStr (asc ''Internal server error''))] \<and>
   snd (try_except ([], Inl (Exception (asc ''boom''))) process_message_except)
     = (Inl \<lparr>HTTPException.status_code = 500, detail = asc ''Internal server error''\<rparr>
          :: HTTPException + MessageResponse)"
  using process_never_faults
    [of latin1_runtime "\<lparr>message = strasse\<rparr>" clock_a "message_body strasse" default_config]
  by (simp add: validate_message_body strasse_encodable latin1_scalar)

subsection \<open>Readiness\<close>

lemma ready_json:
  "json_dumps rt (PDict [(asc ''ready'', PBool True), (asc ''timestamp'', PStr (isoformat d))])
     = [123, 34] @ asc ''ready'' @ [34] @ asc '':true,'' @ [34] @ asc ''timestamp''
       @ [34, 58, 34] @ isoformat d @ [34, 125]"
  by (simp add: json_dumps_str_isoformat) (simp add: json_dumps_str_def json_escape_def asc_def)

lemma ready_body:
  "utf8 (json_dumps rt (PDict [(asc ''ready'', PBool True), (asc ''timestamp'', PStr (isoformat d))]))
     = [123, 34] @ asc ''ready'' @ [34] @ asc '':true,'' @ [34] @ asc ''timestamp''
       @ [34, 58, 34] @ isoformat d @ [34, 125]"
proof -
  have "c < 128" if "c \<in> set (isoformat d)" for c
    using isoformat_range [OF that] by linarith
  then have "\<forall>c\<in>set ([123, 34] @ asc ''ready'' @ [34] @ asc '':true,'' @ [34] @ asc ''timestamp''
       @ [34, 58, 34] @ isoformat d @ [34, 125]). c < 128"
    by (auto simp: asc_def)
  then show ?thesis
    unfolding ready_json by (rule utf8_ascii)
qed

lemma readiness_check_returns:
  "readiness_check rt clk =
     ([], Inr \<lparr>Response.status_code = 200,
               content = PDict [(asc ''ready'', PBool True),
                                (asc ''timestamp'', PStr (isoformat (utcnow clk)))],
               media_type = asc ''application/json'',
               raw_body = [123, 34] @ asc ''ready'' @ [34] @ asc '':true,'' @ [34]
                 @ asc ''timestamp'' @ [34, 58, 34] @ isoformat (utcnow clk) @ [34, 125]\<rparr>)"
proof -
  let ?c = "PDict [(asc ''ready'', PBool True), (asc ''timestamp'', PStr (isoformat (utcnow clk)))]"
  have "text_ok ?c"
    by (simp add: encodable_asc encodable_isoformat)
  then have "JSONResponse rt ?c 200 (asc ''application/json'') =
      Inr \<lparr>Response.status_code = 200, content = ?c, media_type = asc ''application/json'',
           raw_body = utf8 (json_dumps rt ?c)\<rparr>"
    by (rule JSONResponse_text_ok)
  then show ?thesis
    unfolding ready_body by (simp add: readiness_check_def readiness_check_try_def try_except_def)
qed

lemma endpoint_ready:
  "endpoint rt cfg GET_ready clk =
     ([], \<lparr>Response.status_code = 200,
           content = PDict [(asc ''ready'', PBool True),
                            (asc ''timestamp'', PStr (isoformat (utcnow clk)))],
           media_type = asc ''application/json'',
           raw_body = [123, 34] @ asc ''ready'' @ [34] @ asc '':true,'' @ [34]
             @ asc ''timestamp'' @ [34, 58, 34] @ isoformat (utcnow clk) @ [34, 125]\<rparr>)"
  by (simp add: endpoint.simps readiness_check_returns)

lemma ready_fields:
  "field (snd (endpoint rt cfg GET_ready clk)) ''ready'' = Some (PBool True)"
  "field (snd (endpoint rt cfg GET_ready clk)) ''timestamp'' = Some (PStr (isoformat (utcnow clk)))"
  by (simp_all add: endpoint_ready field_def dict_get_def asc_def)

text \<open>
  C6. \<open>GET /ready\<close> always answers 200 with \<open>ready\<close> true and a \<open>timestamp\<close>;
  \<open>readiness_check\<close> never raises, so no answer is 503. The \<open>except\<close> branch, if it were
  entered, would raise \<open>HTTPException(503, "Service not ready")\<close>.
\<close>

theorem ready_response:
  "endpoint rt cfg GET_ready clk =
     ([], \<lparr>Response.status_code = 200,
           content = PDict [(asc ''ready'', PBool True),
                            (asc ''timestamp'', PStr (isoformat (utcnow clk)))],
           media_type = asc ''application/json'',
           raw_body = [123, 34] @ asc ''ready'' @ [34] @ asc '':true,'' @ [34]
             @ asc ''timestamp'' @ [34, 58, 34] @ isoformat (utcnow clk) @ [34, 125]\<rparr>) \<and>
   field (snd (endpoint rt cfg GET_ready clk)) ''ready'' = Some (PBool True) \<and>
   (\<exists>ts. field (snd (endpoint rt cfg GET_ready clk)) ''timestamp'' = Some (PStr ts)) \<and>
   (\<forall>lg h. readiness_check rt clk \<noteq> (lg, Inl h)) \<and>
   Response.status_code (snd (endpoint rt cfg GET_ready clk)) \<noteq> 503 \<and>
   (\<forall>lg e. snd (try_except (lg, Inl e) readiness_check_except)
      = (Inl \<lparr>HTTPException.status_code = 503, detail = asc ''Service not ready''\<rparr>
           :: HTTPException + Response))"
proof (intro conjI allI)
  show "endpoint rt cfg GET_ready clk =
     ([], \<lparr>Response.status_code = 200,
           content = PDict [(asc ''ready'', PBool True),
                            (asc ''timestamp'', PStr (isoformat (utcnow clk)))],
           media_type = asc ''application/json'',
           raw_body = [123, 34] @ asc ''ready'' @ [34] @ asc '':true,'' @ [34]
             @ asc ''timestamp'' @ [34, 58, 34] @ isoformat (utcnow clk) @ [34, 125]\<rparr>)"
    by (rule endpoint_ready)
  show "\<exists>ts. field (snd (endpoint rt cfg GET_ready clk)) ''timestamp'' = Some (PStr ts)"
    by (simp add: ready_fields)
  show "Response.status_code (snd (endpoint rt cfg GET_ready clk)) \<noteq> 503"
    by (simp add: endpoint_ready)
qed (simp_all add: ready_fields readiness_check_returns try_except_def readiness_check_except_def)

lemma isoformat_full_second: "isoformat utc_full_second = asc ''2024-01-01T00:00:00''"
  by (simp add: isoformat_def utc_full_second_def zero_pad_def dec_small dec_large asc_def)

lemma isoformat_sample: "isoformat utc_sample = asc ''2024-03-09T14:05:07.120034''"
  by (simp add: isoformat_def utc_sample_def zero_pad_def dec_small dec_large asc_def)

theorem ready_response_witness:
  "Response.status_code (snd (endpoint latin1_runtime default_config GET_ready clock_b)) = 200 \<and>
   field (snd (endpoint latin1_runtime default_config GET_ready clock_b)) ''ready''
     = Some (PBool True) \<and>
   field (snd (endpoint latin1_runtime default_config GET_ready clock_b)) ''timestamp''
     = Some (PStr (asc ''2024-03-09T14:05:07.120034'')) \<and>
   raw_body (snd (endpoint latin1_runtime default_config GET_ready clock_b))
     = [123, 34] @ asc ''ready'' @ [34] @ asc '':true,'' @ [34] @ asc ''timestamp''
       @ [34, 58, 34] @ asc ''2024-03-09T14:05:07.120034'' @ [34, 125]"
  using ready_response [of latin1_runtime default_config clock_b]
  by (simp add: isoformat_sample clock_b_def field_def dict_get_def asc_def)

subsection \<open>Timestamps\<close>

lemma process_200_fields:
  assumes "Response.status_code (snd (endpoint rt cfg (POST_api_process (message_body m)) clk)) = 200"
  shows "field (snd (endpoint rt cfg (POST_api_process (message_body m)) clk)) ''timestamp''
           = Some (PStr (isoformat (utcnow clk)))"
proof -
  from assms have "encodable m \<and> encodable (strip (upper rt m))"
    by (simp add: endpoint_process_status validate_message_body split: if_splits)
  then show ?thesis
    by (simp add: process_response_accepted [OF validate_message_body] MessageResponse_fields)
qed

lemma health_200_fields:
  assumes "Response.status_code (snd (endpoint rt cfg GET_health clk)) = 200"
  shows "field (snd (endpoint rt cfg GET_health clk)) ''timestamp''
           = Some (PStr (isoformat (utcnow clk)))"
proof -
  from assms have "encodable (APP_VERSION cfg) \<and> encodable (ENVIRONMENT cfg)"
    by (simp add: endpoint_health status_internal_server_error split: if_splits)
  then show ?thesis
    by (simp add: endpoint_health HealthResponse_fields health_check_fields)
qed

text \<open>
  C8. The \<open>timestamp\<close> that \<open>health_check\<close>, \<open>readiness_check\<close> and \<open>process_message\<close> put
  into their results is \<open>utcnow().isoformat()\<close>, and it is the \<open>timestamp\<close> field of every
  answer that has one (the 200 answers). For a valid instant it has the shape
  \<open>YYYY-MM-DDTHH:MM:SS.ffffff\<close> when the microsecond is not zero, and the shape
  \<open>YYYY-MM-DDTHH:MM:SS\<close> when it is zero; nothing follows in either case.
\<close>

theorem timestamp_shape:
  "valid_datetime (utcnow clk) \<Longrightarrow>
     HealthResponse.timestamp (health_check cfg clk) = isoformat (utcnow clk) \<and>
     snd (process_message rt \<lparr>message = m\<rparr> clk) =
       Inr \<lparr>original = m, processed = strip (upper rt m), length_field = len (strip (upper rt m)),
            MessageResponse.timestamp = isoformat (utcnow clk)\<rparr> \<and>
     field (snd (endpoint rt cfg GET_ready clk)) ''timestamp''
       = Some (PStr (isoformat (utcnow clk))) \<and>
     (Response.status_code (snd (endpoint rt cfg GET_health clk)) = 200 \<longrightarrow>
        field (snd (endpoint rt cfg GET_health clk)) ''timestamp''
          = Some (PStr (isoformat (utcnow clk)))) \<and>
     (Response.status_code (snd (endpoint rt cfg (POST_api_process (message_body m)) clk)) = 200 \<longrightarrow>
        field (snd (endpoint rt cfg (POST_api_process (message_body m)) clk)) ''timestamp''
          = Some (PStr (isoformat (utcnow clk)))) \<and>
     (encodable (APP_VERSION cfg) \<and> encodable (ENVIRONMENT cfg) \<longrightarrow>
        field (snd (endpoint rt cfg GET_health clk)) ''timestamp''
          = Some (PStr (isoformat (utcnow clk)))) \<and>
     (encodable m \<and> case_table_scalar rt \<longrightarrow>
        field (snd (endpoint rt cfg (POST_api_process (message_body m)) clk)) ''timestamp''
          = Some (PStr (isoformat (utcnow clk)))) \<and>
     (microsecond (utcnow clk) \<noteq> 0 \<longrightarrow> has_shape shape_micro (isoformat (utcnow clk))) \<and>
     (microsecond (utcnow clk) = 0 \<longrightarrow> has_shape shape_seconds (isoformat (utcnow clk)))"
proof (intro conjI impI)
  assume v: "valid_datetime (utcnow clk)"
  show "HealthResponse.timestamp (health_check cfg clk) = isoformat (utcnow clk)"
    by (rule health_check_fields)
  show "snd (process_message rt \<lparr>message = m\<rparr> clk) =
       Inr \<lparr>original = m, processed = strip (upper rt m), length_field = len (strip (upper rt m)),
            MessageResponse.timestamp = isoformat (utcnow clk)\<rparr>"
    by (simp add: process_message_returns)
  show "field (snd (endpoint rt cfg GET_ready clk)) ''timestamp''
       = Some (PStr (isoformat (utcnow clk)))"
    by (rule ready_fields)
  show "field (snd (endpoint rt cfg GET_health clk)) ''timestamp''
          = Some (PStr (isoformat (utcnow clk)))"
    if "Response.status_code (snd (endpoint rt cfg GET_health clk)) = 200"
    using that by (rule health_200_fields)
  show "field (snd (endpoint rt cfg (POST_api_process (message_body m)) clk)) ''timestamp''
          = Some (PStr (isoformat (utcnow clk)))"
    if "Response.status_code (snd (endpoint rt cfg (POST_api_process (message_body m)) clk)) = 200"
    using that by (rule process_200_fields)
  show "field (snd (endpoint rt cfg GET_health clk)) ''timestamp''
          = Some (PStr (isoformat (utcnow clk)))"
    if "encodable (APP_VERSION cfg) \<and> encodable (ENVIRONMENT cfg)"
    using that by (simp add: endpoint_health HealthResponse_fields health_check_fields)
  show "field (snd (endpoint rt cfg (POST_api_process (message_body m)) clk)) ''timestamp''
          = Some (PStr (isoformat (utcnow clk)))"
    if "encodable m \<and> case_table_scalar rt"
    using that
    by (simp add: process_response_accepted [OF validate_message_body] MessageResponse_fields
          encodable_strip encodable_upper)
  show "has_shape shape_micro (isoformat (utcnow clk))" if "microsecond (utcnow clk) \<noteq> 0"
    using v that by (rule isoformat_shape_micro)
  show "has_shape shape_seconds (isoformat (utcnow clk))" if "microsecond (utcnow clk) = 0"
    using v that by (rule isoformat_shape_seconds)
qed

lemma valid_examples: "valid_datetime utc_full_second" "valid_datetime utc_sample"
  by (simp_all add: valid_datetime_def utc_full_second_def utc_sample_def)

theorem timestamp_shape_witness:
  "valid_datetime (utcnow clock_b) \<and> microsecond (utcnow clock_b) = 120034 \<and>
   field (snd (endpoint latin1_runtime default_config GET_health clock_b)) ''timestamp''
     = Some (PStr (asc ''2024-03-09T14:05:07.120034'')) \<and>
   field (snd (endpoint latin1_runtime default_config (POST_api_process (message_body strasse))
     clock_b)) ''timestamp'' = Some (PStr (asc ''2024-03-09T14:05:07.120034'')) \<and>
   has_shape shape_micro (asc ''2024-03-09T14:05:07.120034'') \<and>
   valid_datetime (utcnow clock_a) \<and> microsecond (utcnow clock_a) = 0 \<and>
   field (snd (endpoint latin1_runtime default_config GET_health clock_a)) ''timestamp''
     = Some (PStr (asc ''2024-01-01T00:00:00'')) \<and>
   has_shape shape_seconds (asc ''2024-01-01T00:00:00'')"
  using timestamp_shape [of clock_b default_config latin1_runtime strasse]
    timestamp_shape [of clock_a default_config latin1_runtime strasse]
  by (simp add: clock_a_def clock_b_def valid_examples isoformat_sample isoformat_full_second
        default_config_fields encodable_asc strasse_encodable latin1_scalar)
     (simp add: utc_sample_def utc_full_second_def)

text \<open>
  At \<open>2024-01-01 00:00:00\<close> sharp, a valid instant, \<open>/health\<close> reports the timestamp
  \<open>2024-01-01T00:00:00\<close>, which has no fraction and so not the shape with microseconds.
\<close>

theorem timestamp_full_second_counterexample:
  "valid_datetime (utcnow clock_a) \<and>
   field (snd (endpoint latin1_runtime default_config GET_health clock_a)) ''timestamp''
     = Some (PStr (asc ''2024-01-01T00:00:00'')) \<and>
   \<not> has_shape shape_micro (asc ''2024-01-01T00:00:00'')"
proof (intro conjI)
  show "valid_datetime (utcnow clock_a)"
    by (simp add: clock_a_def valid_examples)
  show "field (snd (endpoint latin1_runtime default_config GET_health clock_a)) ''timestamp''
     = Some (PStr (asc ''2024-01-01T00:00:00''))"
    by (simp add: endpoint_health default_config_fields encodable_asc HealthResponse_fields
          health_check_fields clock_a_def isoformat_full_second)
  show "\<not> has_shape shape_micro (asc ''2024-01-01T00:00:00'')"
  proof
    assume "has_shape shape_micro (asc ''2024-01-01T00:00:00'')"
    then have "length (asc ''2024-01-01T00:00:00'') = length shape_micro"
      by (rule has_shape_length)
    then show False
      by (simp add: asc_def shape_micro_def)
  qed
qed

subsection \<open>Metrics\<close>

lemma encodable_metrics_output:
  "encodable (metrics_output rt cfg up) \<longleftrightarrow>
     encodable (APP_VERSION cfg) \<and> encodable (ENVIRONMENT cfg)"
  by (simp add: metrics_output_def app_info_line_def encodable_append encodable_asc
        encodable_Cons encodable_Nil scalar_small)

lemma metrics_eq:
  "metrics rt cfg clk =
     JSONResponse rt (PStr (metrics_output rt cfg (time_time clk - APP_START_TIME cfg))) 200
       (asc ''text/plain'')"
  by (simp add: metrics_def Let_def)

lemma endpoint_metrics:
  "snd (endpoint rt cfg GET_metrics clk) =
     (if encodable (APP_VERSION cfg) \<and> encodable (ENVIRONMENT cfg)
      then \<lparr>Response.status_code = 200,
            content = PStr (metrics_output rt cfg (time_time clk - APP_START_TIME cfg)),
            media_type = asc ''text/plain'',
            raw_body = utf8 (json_dumps_str
              (metrics_output rt cfg (time_time clk - APP_START_TIME cfg)))\<rparr>
      else internal_server_error)"
  by (simp add: endpoint.simps metrics_eq respond_JSONResponse encodable_metrics_output)

lemma metrics_uptime_line:
  "sublist (asc ''app_uptime_seconds '' @ asc (float_repr rt up) @ [10]) (metrics_output rt cfg up)"
proof -
  have "metrics_output rt cfg up =
      (asc ''# HELP app_uptime_seconds Application uptime in seconds'' @ [10]
       @ asc ''# TYPE app_uptime_seconds gauge'' @ [10])
      @ (asc ''app_uptime_seconds '' @ asc (float_repr rt up) @ [10])
      @ ([10] @ asc ''# HELP app_info Application information'' @ [10]
         @ asc ''# TYPE app_info gauge'' @ [10]
         @ app_info_line (APP_VERSION cfg) (ENVIRONMENT cfg) @ [10])"
    by (simp add: metrics_output_def)
  then show ?thesis
    by (simp only: sublist_appendI)
qed

lemma metrics_uptime_name: "sublist (asc ''app_uptime_seconds'') (metrics_output rt cfg up)"
proof -
  have "asc ''app_uptime_seconds '' @ asc (float_repr rt up) @ [10]
      = [] @ asc ''app_uptime_seconds'' @ (asc '' '' @ asc (float_repr rt up) @ [10])"
    by (simp add: asc_def)
  then have "sublist (asc ''app_uptime_seconds'')
      (asc ''app_uptime_seconds '' @ asc (float_repr rt up) @ [10])"
    by (simp only: sublist_appendI)
  then show ?thesis
    using metrics_uptime_line sublist_order.order_trans by blast
qed

lemma metrics_info_line:
  "sublist (app_info_line (APP_VERSION cfg) (ENVIRONMENT cfg)) (metrics_output rt cfg up)"
proof -
  have "metrics_output rt cfg up =
      (asc ''# HELP app_uptime_seconds Application uptime in seconds'' @ [10]
       @ asc ''# TYPE app_uptime_seconds gauge'' @ [10]
       @ asc ''app_uptime_seconds '' @ asc (float_repr rt up) @ [10]
       @ [10] @ asc ''# HELP app_info Application information'' @ [10]
       @ asc ''# TYPE app_info gauge'' @ [10])
      @ app_info_line (APP_VERSION cfg) (ENVIRONMENT cfg) @ [10]"
    by (simp add: metrics_output_def)
  then show ?thesis
    by (simp only: sublist_appendI)
qed

text \<open>
  The rendered text begins with the opening quote and the first line, and the line feed
  after it is written as a backslash and \<open>n\<close>.
\<close>

lemma utf8_ascii_prefix: "\<forall>c\<in>set s. c < 128 \<Longrightarrow> utf8 (s @ t) = s @ utf8 t"
  by (induction s) (simp_all add: utf8_def utf8_cp_def)

lemma metrics_body_prefix:
  "prefix ([34] @ asc ''# HELP app_uptime_seconds Application uptime in seconds'' @ [92, 110]
           @ asc ''# TYPE'')
     (utf8 (json_dumps_str (metrics_output rt cfg up)))"
proof -
  let ?p = "[34] @ asc ''# HELP app_uptime_seconds Application uptime in seconds'' @ [92, 110]
           @ asc ''# TYPE''"
  obtain rest where r: "metrics_output rt cfg up =
      asc ''# HELP app_uptime_seconds Application uptime in seconds'' @ [10] @ asc ''# TYPE'' @ rest"
    by (simp add: metrics_output_def asc_def)
  have "json_dumps_str (metrics_output rt cfg up) = ?p @ concat (map json_escape rest) @ [34]"
    unfolding r by (simp add: json_dumps_str_def asc_def json_escape_def)
  moreover have "\<forall>c\<in>set ?p. c < 128"
    by (simp add: asc_def)
  ultimately have "utf8 (json_dumps_str (metrics_output rt cfg up))
      = ?p @ utf8 (concat (map json_escape rest) @ [34])"
    by (simp only: utf8_ascii_prefix)
  then show ?thesis
    by (simp only: prefixI)
qed

lemma metrics_body_not_text:
  "utf8 (json_dumps_str (metrics_output rt cfg up)) \<noteq> utf8 (metrics_output rt cfg up)"
proof -
  obtain rest where "metrics_output rt cfg up = 35 # rest"
    by (simp add: metrics_output_def asc_def)
  then have "hd (utf8 (metrics_output rt cfg up)) = 35"
    by (simp add: utf8_def utf8_cp_def)
  moreover have "hd (utf8 (json_dumps_str (metrics_output rt cfg up))) = 34"
    by (simp add: json_dumps_str_def utf8_def utf8_cp_def)
  ultimately show ?thesis by auto
qed

text \<open>
  C4. The text that \<open>metrics\<close> hands to \<open>JSONResponse\<close> contains \<open>app_uptime_seconds\<close>, the
  gauge line with the current uptime, and the line
  \<open>app_info{version="v",environment="e"} 1\<close> for the configured \<open>v\<close> and \<open>e\<close>. When \<open>v\<close> and
  \<open>e\<close> hold no lone surrogate, \<open>GET /metrics\<close> answers 200 under the media type
  \<open>text/plain\<close>, and the body is the UTF-8 encoding of the text written as one JSON string:
  it starts with the quote and the first line followed by an escaped line feed, it is not
  the encoding of the text itself, and a client that reads the body as JSON obtains the text.
\<close>

theorem metrics_response:
  "(encodable (APP_VERSION cfg) \<and> encodable (ENVIRONMENT cfg) \<longrightarrow>
      (let resp = snd (endpoint rt cfg GET_metrics clk);
           txt = metrics_output rt cfg (time_time clk - APP_START_TIME cfg)
       in Response.status_code resp = 200 \<and>
          content resp = PStr txt \<and>
          media_type resp = asc ''text/plain'' \<and>
          decode_utf8 (raw_body resp) = Some (json_dumps_str txt) \<and>
          response_json (raw_body resp) = Some txt \<and>
          prefix ([34] @ asc ''# HELP app_uptime_seconds Application uptime in seconds''
                  @ [92, 110] @ asc ''# TYPE'') (raw_body resp) \<and>
          raw_body resp \<noteq> utf8 txt)) \<and>
   (let txt = metrics_output rt cfg (time_time clk - APP_START_TIME cfg)
    in metrics rt cfg clk = JSONResponse rt (PStr txt) 200 (asc ''text/plain'') \<and>
       json_loads_str (json_dumps_str txt) = Some txt \<and>
       sublist (asc ''app_uptime_seconds'') txt \<and>
       sublist (asc ''app_uptime_seconds ''
                @ asc (float_repr rt (time_time clk - APP_START_TIME cfg)) @ [10]) txt \<and>
       sublist (asc ''app_info{version='' @ [34] @ APP_VERSION cfg @ [34]
                @ asc '',environment='' @ [34] @ ENVIRONMENT cfg @ [34] @ asc ''} 1'') txt)"
proof (intro conjI impI)
  let ?txt = "metrics_output rt cfg (time_time clk - APP_START_TIME cfg)"
  assume e: "encodable (APP_VERSION cfg) \<and> encodable (ENVIRONMENT cfg)"
  then have t: "encodable ?txt"
    by (simp add: encodable_metrics_output)
  then have "decode_utf8 (utf8 (json_dumps_str ?txt)) = Some (json_dumps_str ?txt)"
    by (simp add: decode_utf8_utf8 encodable_json_dumps_str)
  with e t show "let resp = snd (endpoint rt cfg GET_metrics clk);
           txt = metrics_output rt cfg (time_time clk - APP_START_TIME cfg)
       in Response.status_code resp = 200 \<and>
          content resp = PStr txt \<and>
          media_type resp = asc ''text/plain'' \<and>
          decode_utf8 (raw_body resp) = Some (json_dumps_str txt) \<and>
          response_json (raw_body resp) = Some txt \<and>
          prefix ([34] @ asc ''# HELP app_uptime_seconds Application uptime in seconds''
                  @ [92, 110] @ asc ''# TYPE'') (raw_body resp) \<and>
          raw_body resp \<noteq> utf8 txt"
    using metrics_body_prefix [of rt cfg "time_time clk - APP_START_TIME cfg"]
    by (simp add: Let_def endpoint_metrics response_json_string metrics_body_not_text)
next
  have "sublist (asc ''app_info{version='' @ [34] @ APP_VERSION cfg @ [34]
                @ asc '',environment='' @ [34] @ ENVIRONMENT cfg @ [34] @ asc ''} 1'')
          (metrics_output rt cfg (time_time clk - APP_START_TIME cfg))"
    using metrics_info_line [of cfg rt] by (simp add: app_info_line_def)
  then show "let txt = metrics_output rt cfg (time_time clk - APP_START_TIME cfg)
    in metrics rt cfg clk = JSONResponse rt (PStr txt) 200 (asc ''text/plain'') \<and>
       json_loads_str (json_dumps_str txt) = Some txt \<and>
       sublist (asc ''app_uptime_seconds'') txt \<and>
       sublist (asc ''app_uptime_seconds ''
                @ asc (float_repr rt (time_time clk - APP_START_TIME cfg)) @ [10]) txt \<and>
       sublist (asc ''app_info{version='' @ [34] @ APP_VERSION cfg @ [34]
                @ asc '',environment='' @ [34] @ ENVIRONMENT cfg @ [34] @ asc ''} 1'') txt"
    by (simp add: Let_def metrics_eq json_loads_dumps_str metrics_uptime_name metrics_uptime_line)
qed

theorem metrics_response_witness:
  "encodable (APP_VERSION default_config) \<and> encodable (ENVIRONMENT default_config) \<and>
   Response.status_code (snd (endpoint latin1_runtime default_config GET_metrics clock_b)) = 200 \<and>
   response_json (raw_body (snd (endpoint latin1_runtime default_config GET_metrics clock_b)))
     = Some (metrics_output latin1_runtime default_config (513 / 512)) \<and>
   sublist (asc ''app_info{version='' @ [34] @ asc ''1.0.0'' @ [34]
                @ asc '',environment='' @ [34] @ asc ''development'' @ [34] @ asc ''} 1'')
     (metrics_output latin1_runtime default_config (513 / 512))"
proof -
  have up: "time_time clock_b - APP_START_TIME default_config = 513 / 512"
    by (simp add: clock_b_def default_config_fields)
  from metrics_response [of default_config latin1_runtime clock_b] show ?thesis
    unfolding up by (simp add: Let_def default_config_fields(2,3) encodable_asc)
qed

text \<open>
  For the process whose version is the lone surrogate \<open>U+DCFF\<close>, \<open>JSONResponse\<close> raises
  inside \<open>metrics\<close>, and the answer of \<open>GET /metrics\<close> is 500.
\<close>

theorem metrics_undecodable_version_counterexample:
  "APP_VERSION (load_module undecodable_env 1700000000) = [56575] \<and>
   (\<exists>c i. metrics latin1_runtime (load_module undecodable_env 1700000000) clock_b
      = Inl (UnicodeEncodeError c i)) \<and>
   Response.status_code
     (snd (endpoint latin1_runtime (load_module undecodable_env 1700000000) GET_metrics clock_b))
     = 500"
proof -
  let ?cfg = "load_module undecodable_env 1700000000"
  have n: "\<not> encodable (APP_VERSION ?cfg)"
    using undecodable_version by (simp add: undecodable_config_def)
  then have "\<not> encodable (json_dumps latin1_runtime
      (PStr (metrics_output latin1_runtime ?cfg (time_time clock_b - APP_START_TIME ?cfg))))"
    by (simp add: encodable_json_dumps_str encodable_metrics_output)
  from encode_from_not_encodable [OF this, of 0]
  have "\<exists>c i. metrics latin1_runtime ?cfg clock_b = Inl (UnicodeEncodeError c i)"
    by (auto simp: metrics_eq JSONResponse_def render_def encode_utf8_def)
  with n show ?thesis
    using undecodable_config_fields(2)
    by (simp add: undecodable_config_def endpoint_metrics status_internal_server_error)
qed

text \<open>
  C10. The gauge line of \<open>/metrics\<close> carries \<open>now - start\<close> as it is, while \<open>/health\<close> and
  \<open>/api/info\<close> carry \<open>round(now - start, 2)\<close>; there are clock readings at which the two
  values differ.
\<close>

theorem metrics_uptime_unrounded:
  "metrics rt cfg clk =
     JSONResponse rt (PStr (metrics_output rt cfg (time_time clk - APP_START_TIME cfg))) 200
       (asc ''text/plain'') \<and>
   sublist (asc ''app_uptime_seconds '' @ asc (float_repr rt (time_time clk - APP_START_TIME cfg))
            @ [10])
     (metrics_output rt cfg (time_time clk - APP_START_TIME cfg)) \<and>
   (\<forall>resp. metrics rt cfg clk = Inr resp \<longrightarrow>
      sublist (asc ''app_uptime_seconds ''
               @ asc (float_repr rt (time_time clk - APP_START_TIME cfg)) @ [10])
        (text_of (content resp))) \<and>
   uptime_seconds (health_check cfg clk) = py_round (time_time clk - APP_START_TIME cfg) 2 \<and>
   dict_get (app_info rt cfg clk) (asc ''uptime_seconds'')
     = Some (PFloat (py_round (time_time clk - APP_START_TIME cfg) 2)) \<and>
   (\<exists>cfg' clk'. uptime_seconds (health_check cfg' clk') \<noteq> time_time clk' - APP_START_TIME cfg')"
proof (intro conjI allI impI)
  show "metrics rt cfg clk =
     JSONResponse rt (PStr (metrics_output rt cfg (time_time clk - APP_START_TIME cfg))) 200
       (asc ''text/plain'')"
    by (rule metrics_eq)
  show "sublist (asc ''app_uptime_seconds '' @ asc (float_repr rt (time_time clk - APP_START_TIME cfg))
            @ [10])
     (metrics_output rt cfg (time_time clk - APP_START_TIME cfg))"
    by (rule metrics_uptime_line)
  show "sublist (asc ''app_uptime_seconds ''
               @ asc (float_repr rt (time_time clk - APP_START_TIME cfg)) @ [10])
        (text_of (content resp))" if "metrics rt cfg clk = Inr resp" for resp
  proof -
    from that have "content resp = PStr (metrics_output rt cfg (time_time clk - APP_START_TIME cfg))"
      by (auto simp: metrics_eq JSONResponse_def split: sum.splits)
    then show ?thesis
      by (simp add: text_of_def metrics_uptime_line)
  qed
  show "uptime_seconds (health_check cfg clk) = py_round (time_time clk - APP_START_TIME cfg) 2"
    by (rule health_check_fields)
  show "dict_get (app_info rt cfg clk) (asc ''uptime_seconds'')
     = Some (PFloat (py_round (time_time clk - APP_START_TIME cfg) 2))"
    by (simp add: app_info_def dict_get_def asc_def)
  have "uptime_seconds (health_check default_config clock_b)
          \<noteq> time_time clock_b - APP_START_TIME default_config"
    by (simp add: health_check_fields uptime_at_clocks)
       (simp add: clock_b_def default_config_fields)
  then show "\<exists>cfg' clk'. uptime_seconds (health_check cfg' clk')
      \<noteq> time_time clk' - APP_START_TIME cfg'"
    by blast
qed

theorem metrics_uptime_unrounded_witness:
  "uptime_seconds (health_check default_config clock_b) = 1 \<and>
   dict_get (app_info latin1_runtime default_config clock_b) (asc ''uptime_seconds'')
     = Some (PFloat 1) \<and>
   time_time clock_b - APP_START_TIME default_config = 513 / 512 \<and>
   sublist (asc ''app_uptime_seconds '' @ asc (float_repr latin1_runtime (513 / 512)) @ [10])
     (metrics_output latin1_runtime default_config (513 / 512)) \<and>
   (\<exists>resp. metrics latin1_runtime default_config clock_b = Inr resp \<and>
      sublist (asc ''app_uptime_seconds '' @ asc (float_repr latin1_runtime (513 / 512)) @ [10])
        (text_of (content resp)))"
proof -
  have up: "time_time clock_b - APP_START_TIME default_config = 513 / 512"
    by (simp add: clock_b_def default_config_fields)
  have "text_ok (PStr (metrics_output latin1_runtime default_config (513 / 512)))"
    by (simp add: encodable_metrics_output default_config_fields encodable_asc)
  then have "\<exists>resp. metrics latin1_runtime default_config clock_b = Inr resp"
    by (simp add: metrics_eq up JSONResponse_text_ok)
  with metrics_uptime_unrounded [of latin1_runtime default_config clock_b] show ?thesis
    unfolding uptime_at_clocks unfolding up by auto
qed

subsection \<open>The configuration over a run\<close>

lemma handle_config: "config (snd (handle rt srv rc)) = config srv"
  by (simp add: handle_def split: prod.splits)

lemma handle_response: "fst (handle rt srv rc) = snd (endpoint rt (config srv) (fst rc) (snd rc))"
  by (simp add: handle_def split: prod.splits)

lemma serve_Cons:
  "serve rt srv (rc # rcs) =
     (fst (handle rt srv rc) # fst (serve rt (snd (handle rt srv rc)) rcs),
      snd (serve rt (snd (handle rt srv rc)) rcs))"
  by (simp add: split: prod.splits)

lemma serve_config: "config (snd (serve rt srv rcs)) = config srv"
  by (induction rcs arbitrary: srv) (simp_all add: serve_Cons handle_config del: serve.simps(2))

lemma serve_length: "length (fst (serve rt srv rcs)) = length rcs"
  by (induction rcs arbitrary: srv) (simp_all add: serve_Cons del: serve.simps(2))

lemma serve_nth:
  "i < length rcs \<Longrightarrow>
     fst (serve rt srv rcs) ! i = snd (endpoint rt (config srv) (fst (rcs ! i)) (snd (rcs ! i)))"
proof (induction rcs arbitrary: srv i)
  case Nil
  then show ?case by simp
next
  case (Cons rc rcs)
  show ?case
  proof (cases i)
    case 0
    then show ?thesis
      by (simp add: serve_Cons handle_response del: serve.simps(2))
  next
    case (Suc j)
    with Cons.prems have "j < length rcs" by simp
    from Cons.IH [OF this, of "snd (handle rt srv rc)"] Suc show ?thesis
      by (simp add: serve_Cons handle_config del: serve.simps(2))
  qed
qed

lemma endpoint_root:
  "snd (endpoint rt cfg GET_root clk) =
     (if encodable (APP_VERSION cfg)
      then \<lparr>Response.status_code = 200, content = PDict (root cfg),
            media_type = asc ''application/json'',
            raw_body = utf8 (json_dumps rt (PDict (root cfg)))\<rparr>
      else internal_server_error)"
  by (simp add: endpoint.simps ok_response_sent root_def encodable_asc)

lemma endpoint_api_info:
  "snd (endpoint rt cfg GET_api_info clk) =
     (if encodable (APP_VERSION cfg) \<and> encodable (ENVIRONMENT cfg)
      then \<lparr>Response.status_code = 200, content = PDict (app_info rt cfg clk),
            media_type = asc ''application/json'',
            raw_body = utf8 (json_dumps rt (PDict (app_info rt cfg clk)))\<rparr>
      else internal_server_error)"
  by (simp add: endpoint.simps ok_response_sent app_info_def app_title_def encodable_asc)

lemma root_fields:
  "field \<lparr>Response.status_code = sc, content = PDict (root cfg), media_type = mt, raw_body = b\<rparr>
     ''version'' = Some (PStr (APP_VERSION cfg))"
  by (simp add: field_def root_def dict_get_def asc_def)

lemma app_info_fields:
  "field \<lparr>Response.status_code = sc, content = PDict (app_info rt cfg clk), media_type = mt,
          raw_body = b\<rparr> ''version'' = Some (PStr (APP_VERSION cfg))"
  "field \<lparr>Response.status_code = sc, content = PDict (app_info rt cfg clk), media_type = mt,
          raw_body = b\<rparr> ''environment'' = Some (PStr (ENVIRONMENT cfg))"
  by (simp_all add: field_def app_info_def dict_get_def asc_def)

lemma endpoint_shows_or_fails:
  "snd (endpoint rt cfg rq clk) = internal_server_error
     \<or> shows_config cfg rq (snd (endpoint rt cfg rq clk))"
proof (cases rq)
  case GET_root
  then show ?thesis by (simp add: endpoint_root root_fields)
next
  case GET_health
  then show ?thesis by (simp add: endpoint_health HealthResponse_fields health_check_fields)
next
  case GET_metrics
  then show ?thesis by (simp add: endpoint_metrics text_of_def metrics_info_line)
next
  case GET_api_info
  then show ?thesis by (simp add: endpoint_api_info app_info_fields)
qed simp_all

lemma endpoint_shows_config:
  assumes "encodable (APP_VERSION cfg)" and "encodable (ENVIRONMENT cfg)"
  shows "shows_config cfg rq (snd (endpoint rt cfg rq clk))"
proof (cases rq)
  case GET_root
  with assms show ?thesis by (simp add: endpoint_root root_fields)
next
  case GET_health
  with assms show ?thesis by (simp add: endpoint_health HealthResponse_fields health_check_fields)
next
  case GET_metrics
  with assms show ?thesis by (simp add: endpoint_metrics text_of_def metrics_info_line)
next
  case GET_api_info
  with assms show ?thesis by (simp add: endpoint_api_info app_info_fields)
qed simp_all

lemma start_process_config: "config (start_process env now) = load_module env now"
  by (simp add: start_process_def Let_def)

text \<open>
  C7. The configuration is made once, when the process starts: the start time is the clock
  reading then, the version is \<open>APP_VERSION\<close> or \<open>1.0.0\<close>, the environment is \<open>ENVIRONMENT\<close>
  or \<open>development\<close>. After any sequence of requests the process still holds this
  configuration. Every answer of \<open>/\<close>, \<open>/health\<close>, \<open>/metrics\<close> and \<open>/api/info\<close> in the
  sequence either shows its version and environment or is the 500 of the server, which
  has no fields; when the two values hold no lone surrogate, every answer shows them.
\<close>

theorem config_fixed_over_run:
  "(let srv0 = start_process env now; run = serve rt srv0 rcs
    in config srv0 =
         \<lparr>APP_START_TIME = now,
          APP_VERSION = (case env (asc ''APP_VERSION'') of None \<Rightarrow> asc ''1.0.0'' | Some v \<Rightarrow> v),
          ENVIRONMENT = (case env (asc ''ENVIRONMENT'') of None \<Rightarrow> asc ''development'' | Some e \<Rightarrow> e)\<rparr> \<and>
       config (snd run) = config srv0 \<and>
       length (fst run) = length rcs \<and>
       (\<forall>i<length rcs.
          fst run ! i = snd (endpoint rt (config srv0) (fst (rcs ! i)) (snd (rcs ! i))) \<and>
          (fst run ! i = internal_server_error
           \<or> shows_config (config srv0) (fst (rcs ! i)) (fst run ! i))) \<and>
       (encodable (APP_VERSION (config srv0)) \<and> encodable (ENVIRONMENT (config srv0)) \<longrightarrow>
          (\<forall>i<length rcs. shows_config (config srv0) (fst (rcs ! i)) (fst run ! i))))"
  unfolding Let_def
proof (intro conjI allI impI)
  show "config (start_process env now) =
         \<lparr>APP_START_TIME = now,
          APP_VERSION = (case env (asc ''APP_VERSION'') of None \<Rightarrow> asc ''1.0.0'' | Some v \<Rightarrow> v),
          ENVIRONMENT = (case env (asc ''ENVIRONMENT'') of None \<Rightarrow> asc ''development'' | Some e \<Rightarrow> e)\<rparr>"
    by (simp add: start_process_config load_module_def getenv_def)
  show "config (snd (serve rt (start_process env now) rcs)) = config (start_process env now)"
    by (rule serve_config)
  show "length (fst (serve rt (start_process env now) rcs)) = length rcs"
    by (rule serve_length)
next
  fix i assume i: "i < length rcs"
  then show "fst (serve rt (start_process env now) rcs) ! i =
      snd (endpoint rt (config (start_process env now)) (fst (rcs ! i)) (snd (rcs ! i)))"
    by (rule serve_nth)
  then show "fst (serve rt (start_process env now) rcs) ! i = internal_server_error
           \<or> shows_config (config (start_process env now)) (fst (rcs ! i))
                (fst (serve rt (start_process env now) rcs) ! i)"
    using endpoint_shows_or_fails by simp
next
  fix i
  assume e: "encodable (APP_VERSION (config (start_process env now)))
      \<and> encodable (ENVIRONMENT (config (start_process env now)))"
    and i: "i < length rcs"
  from e show "shows_config (config (start_process env now)) (fst (rcs ! i))
      (fst (serve rt (start_process env now) rcs) ! i)"
    by (simp add: serve_nth [OF i] endpoint_shows_config)
qed

theorem config_fixed_over_run_witness:
  "config (snd (serve latin1_runtime (start_process Map.empty 1700000000) sample_run))
     = default_config \<and>
   encodable (APP_VERSION default_config) \<and> encodable (ENVIRONMENT default_config) \<and>
   Response.status_code
     (fst (serve latin1_runtime (start_process Map.empty 1700000000) sample_run) ! 0) = 200 \<and>
   field (fst (serve latin1_runtime (start_process Map.empty 1700000000) sample_run) ! 0) ''version''
     = Some (PStr (asc ''1.0.0'')) \<and>
   field (fst (serve latin1_runtime (start_process Map.empty 1700000000) sample_run) ! 1) ''environment''
     = Some (PStr (asc ''development'')) \<and>
   field (fst (serve latin1_runtime (start_process Map.empty 1700000000) sample_run) ! 4) ''version''
     = Some (PStr (asc ''1.0.0''))"
proof -
  note t = config_fixed_over_run [of Map.empty 1700000000 latin1_runtime sample_run, unfolded Let_def]
  have cfg: "config (start_process Map.empty 1700000000) = default_config"
    by (simp add: start_process_config default_config_def)
  have enc: "encodable (APP_VERSION default_config) \<and> encodable (ENVIRONMENT default_config)"
    by (simp add: default_config_fields encodable_asc)
  have len: "length sample_run = 5"
    by (simp add: sample_run_def)
  from t enc have all: "\<forall>i<length sample_run. shows_config default_config (fst (sample_run ! i))
      (fst (serve latin1_runtime (start_process Map.empty 1700000000) sample_run) ! i)"
    unfolding cfg by blast
  from all len have "shows_config default_config (fst (sample_run ! 0))
      (fst (serve latin1_runtime (start_process Map.empty 1700000000) sample_run) ! 0)"
    and "shows_config default_config (fst (sample_run ! 1))
      (fst (serve latin1_runtime (start_process Map.empty 1700000000) sample_run) ! 1)"
    and "shows_config default_config (fst (sample_run ! 4))
      (fst (serve latin1_runtime (start_process Map.empty 1700000000) sample_run) ! 4)"
    by simp_all
  moreover from t have "config (snd (serve latin1_runtime (start_process Map.empty 1700000000) sample_run))
     = default_config"
    unfolding cfg by blast
  ultimately show ?thesis
    using enc by (simp add: sample_run_def default_config_fields)
qed

end
